theory Spec2Isabelle
  imports Complex_Main "HOL-Library.AList"
begin

section \<open>JavaScript numbers\<close>

text \<open>
  Prices and amounts are JavaScript numbers, that is IEEE 754 binary64 values, and
  \<^verbatim>\<open>+\<close> and \<^verbatim>\<open>*\<close> round their exact result to the nearest such value, ties to
  the even significand. A finite double is modelled by the rational it denotes, and
  \<open>round_double\<close> is the rounding of an exact rational result to 53 significant bits.
  Overflow to infinity and the subnormal range are outside the model: the amounts of an
  order are far from both.
\<close>

text \<open>
  \<open>ilog2 n\<close> is the number of halvings that bring \<open>n\<close> below 2, and \<open>exponent_of a\<close>
  the binary exponent \<open>e\<close> of a positive rational: \<open>2 ^ e \<le> a < 2 ^ (e + 1)\<close>.
\<close>

function ilog2 :: "int \<Rightarrow> nat" where
  "ilog2 n = (if n < 2 then 0 else Suc (ilog2 (n div 2)))"
  by pat_completeness auto
termination
  by (relation "measure nat") auto

definition exponent_of :: "rat \<Rightarrow> int" where
  "exponent_of a =
     (if 1 \<le> a then int (ilog2 \<lfloor>a\<rfloor>)
      else (let n = \<lceil>1 / a\<rceil> in - int (if n \<le> 1 then 0 else Suc (ilog2 (n - 1)))))"

definition pow2 :: "int \<Rightarrow> rat" where
  "pow2 e = (if 0 \<le> e then 2 ^ nat e else 1 / 2 ^ nat (- e))"

definition round_half_even :: "rat \<Rightarrow> int" where
  "round_half_even m =
     (let f = \<lfloor>m\<rfloor>; d = m - of_int f
      in if d < 1 / 2 then f else if 1 / 2 < d then f + 1 else if even f then f else f + 1)"

definition round_double :: "rat \<Rightarrow> rat" where
  "round_double x =
     (if x = 0 then 0
      else (let a = \<bar>x\<bar>; u = pow2 (exponent_of a - 52)
            in sgn x * of_int (round_half_even (a / u)) * u))"

text \<open>\<^verbatim>\<open>x + y\<close> and \<^verbatim>\<open>x * y\<close> on numbers; a decimal literal denotes the nearest double.\<close>

definition js_add :: "rat \<Rightarrow> rat \<Rightarrow> rat" where
  "js_add x y = round_double (x + y)"

definition js_mul :: "rat \<Rightarrow> rat \<Rightarrow> rat" where
  "js_mul x y = round_double (x * y)"

definition js_literal :: "rat \<Rightarrow> rat" where
  "js_literal r = round_double r"

text \<open>
  Quantities are numbers too. The model keeps them as integers, namely those that a double
  represents (a request's number has been rounded by the JSON parser already); the sum or
  difference of two of them is rounded like every result, and the rounded value of an
  integer is an integer again.
\<close>

definition js_add_int :: "int \<Rightarrow> int \<Rightarrow> int" where
  "js_add_int a b = \<lfloor>round_double (of_int a + of_int b)\<rfloor>"

definition js_sub_int :: "int \<Rightarrow> int \<Rightarrow> int" where
  "js_sub_int a b = \<lfloor>round_double (of_int a - of_int b)\<rfloor>"

section \<open>Strings\<close>

text \<open>
  \<^verbatim>\<open>n.toString()\<close> for a non-negative integer, \<^verbatim>\<open>s.padStart(n, c)\<close> for a
  one-character filler, and the number that a string of decimal digits denotes.
\<close>

definition digit_char :: "nat \<Rightarrow> char" where
  "digit_char d = ''0123456789'' ! d"

fun toString :: "nat \<Rightarrow> string" where
  "toString n = (if n < 10 then [digit_char n] else toString (n div 10) @ [digit_char (n mod 10)])"

definition padStart :: "nat \<Rightarrow> char \<Rightarrow> string \<Rightarrow> string" where
  "padStart n c s = replicate (n - length s) c @ s"

definition is_digit :: "char \<Rightarrow> bool" where
  "is_digit c = (c \<in> set ''0123456789'')"

definition digit_val :: "char \<Rightarrow> nat" where
  "digit_val c = length (takeWhile (\<lambda>x. x \<noteq> c) ''0123456789'')"

definition parse_nat :: "string \<Rightarrow> nat" where
  "parse_nat str = foldl (\<lambda>acc c. 10 * acc + digit_val c) 0 str"

section \<open>Data model\<close>

text \<open>
  The backend of \<^verbatim>\<open>src/server.js\<close> keeps three collections: users (with their cart),
  food items and orders. A cart is the JavaScript object \<^verbatim>\<open>user.cartData\<close>: the model
  keeps its own properties as an association list, in the order of their creation. The
  handlers put numbers there, but their arithmetic on a property that the object inherits
  yields a string (of which the model keeps no content) or \<^verbatim>\<open>NaN\<close>, so a value is one
  of the three. A string field that may be \<^verbatim>\<open>undefined\<close> is a \<open>string option\<close>.
\<close>

datatype cart_value = Num int | Text | Not_a_number

type_synonym cart = "(string \<times> cart_value) list"

record user =
  cartData :: cart

record food =
  name :: string
  description :: string
  price :: rat
  image :: string
  category :: string
  isAvailable :: bool

record delivery_address =
  firstName :: "string option"
  lastName :: "string option"
  email :: "string option"
  street :: "string option"
  city :: "string option"
  state :: "string option"
  zipcode :: "string option"
  country :: "string option"
  phone :: "string option"

datatype order_status =
  Food_Processing | Confirmed | Preparing | Out_for_delivery | Delivered | Cancelled

datatype payment_status = Pending | Paid | Failed

record order_item =
  foodId :: string
  item_name :: string
  item_price :: rat
  quantity :: int
  item_image :: string

text \<open>
  An order document. \<open>orderNumber\<close> is the empty string while it is not set
  (\<^verbatim>\<open>!this.orderNumber\<close> holds for \<^verbatim>\<open>undefined\<close> and for the empty string alike);
  \<open>createdAt\<close> is the timestamp that \<^verbatim>\<open>{ timestamps: true }\<close> adds.
\<close>

record order =
  userId :: string
  orderNumber :: string
  items :: "order_item list"
  amount :: rat
  deliveryFee :: rat
  totalAmount :: rat
  address :: delivery_address
  status :: order_status
  paymentStatus :: payment_status
  paymentId :: "string option"
  createdAt :: nat

record db =
  users :: "string \<rightharpoonup> user"
  foods :: "string \<rightharpoonup> food"
  orders :: "order list"

text \<open>
  The failures a handler answers with: 404 for a missing user, 400 for the validation
  failures of order placement, 500 from the \<^verbatim>\<open>catch\<close> block with its message.
\<close>

datatype error =
    UserNotFound
  | AddressIncomplete "(string \<times> bool) list"
  | CartEmpty
  | FoodNotFound string
  | FoodUnavailable string
  | ServerError string

fun http_status :: "error \<Rightarrow> nat" where
  "http_status UserNotFound = 404"
| "http_status (AddressIncomplete _) = 400"
| "http_status CartEmpty = 400"
| "http_status (FoodNotFound _) = 400"
| "http_status (FoodUnavailable _) = 400"
| "http_status (ServerError _) = 500"

fun message :: "error \<Rightarrow> string" where
  "message UserNotFound = ''User not found''"
| "message (AddressIncomplete _) = ''Complete delivery address is required''"
| "message CartEmpty = ''Cart is empty''"
| "message (FoodNotFound itemId) = ''Food item not found: '' @ itemId"
| "message (FoodUnavailable nm) = ''Food item is no longer available: '' @ nm"
| "message (ServerError msg) = msg"

section \<open>Cart routes\<close>

text \<open>
  \<^verbatim>\<open>cartData[itemId]\<close> reads an own property of the cart or, for a name that
  \<^verbatim>\<open>Object.prototype\<close> defines, the function or object found there; otherwise it is
  \<^verbatim>\<open>undefined\<close>.
\<close>

definition prototype_names :: "string list" where
  "prototype_names =
     [''constructor'', ''__defineGetter__'', ''__defineSetter__'', ''hasOwnProperty'',
      ''__lookupGetter__'', ''__lookupSetter__'', ''isPrototypeOf'', ''propertyIsEnumerable'',
      ''toString'', ''valueOf'', ''__proto__'', ''toLocaleString'']"

datatype js_read = Undefined | Own cart_value | Inherited

definition cart_read :: "cart \<Rightarrow> string \<Rightarrow> js_read" where
  "cart_read cd k =
     (case map_of cd k of
        Some v \<Rightarrow> Own v
      | None \<Rightarrow> if k \<in> set prototype_names then Inherited else Undefined)"

text \<open>
  The truthiness test \<^verbatim>\<open>if (x)\<close>; the values of \<^verbatim>\<open>x + q\<close> and \<^verbatim>\<open>x - q\<close> for
  a number \<open>q\<close> (a function, an object or a string concatenates with \<open>q\<close> and subtracts to
  \<^verbatim>\<open>NaN\<close>); and the test \<^verbatim>\<open>x <= 0\<close>, which is false unless \<open>x\<close> is a number.
\<close>

fun truthy :: "js_read \<Rightarrow> bool" where
  "truthy Undefined = False"
| "truthy (Own (Num n)) = (n \<noteq> 0)"
| "truthy (Own Text) = True"
| "truthy (Own Not_a_number) = False"
| "truthy Inherited = True"

fun js_plus :: "js_read \<Rightarrow> int \<Rightarrow> cart_value" where
  "js_plus (Own (Num n)) q = Num (js_add_int n q)"
| "js_plus (Own Text) q = Text"
| "js_plus (Own Not_a_number) q = Not_a_number"
| "js_plus Inherited q = Text"
| "js_plus Undefined q = Not_a_number"



text \<open>
  \<^verbatim>\<open>cartData[k] = v\<close> replaces the own property in place or creates it last; on a
  cart without an own \<^verbatim>\<open>__proto__\<close> that name is the prototype's setter, which ignores
  a value that is not an object.
\<close>

definition cart_assign :: "cart \<Rightarrow> string \<Rightarrow> cart_value \<Rightarrow> cart" where
  "cart_assign cd k v =
     (if k = ''__proto__'' \<and> map_of cd k = None then cd else AList.update k v cd)"

text \<open>The update of \<^verbatim>\<open>POST /api/cart/add\<close> on the cart object.\<close>

definition add_to_cart :: "cart \<Rightarrow> string \<Rightarrow> int \<Rightarrow> cart" where
  "add_to_cart cd itemId qty =
     (if truthy (cart_read cd itemId)
      then cart_assign cd itemId (js_plus (cart_read cd itemId) qty)
      else cart_assign cd itemId (Num qty))"


text \<open>
  The handlers. The first argument says whether the document store answers; when it does
  not, the handler's \<^verbatim>\<open>catch\<close> block answers 500 and nothing has been written. The
  user id is the one the authentication middleware has set, the id of a user document it
  has just loaded. The quantity of the request body defaults to 1. The answer of the add
  route carries \<^verbatim>\<open>cartData[itemId]\<close>, that of the remove route
  \<^verbatim>\<open>cartData[itemId] || 0\<close>. The update stores the cart object as the handler
  hands it over; whether the driver of the store keeps a key such as \<open>constructor\<close> is
  not decided by the source, and no property below depends on it.
\<close>

definition cart_add ::
  "bool \<Rightarrow> db \<Rightarrow> string \<Rightarrow> string \<Rightarrow> int option \<Rightarrow> (error + string \<times> js_read) \<times> db" where
  "cart_add storage_ok s uid itemId quantity_opt =
     (let qty = (case quantity_opt of None \<Rightarrow> 1 | Some q \<Rightarrow> q) in
      if \<not> storage_ok then (Inl (ServerError ''Failed to add item to cart''), s)
      else case users s uid of
        None \<Rightarrow> (Inl UserNotFound, s)
      | Some u \<Rightarrow>
          (let cd = add_to_cart (cartData u) itemId qty
           in (Inr (itemId, cart_read cd itemId),
               s\<lparr>users := (users s)(uid \<mapsto> u\<lparr>cartData := cd\<rparr>)\<rparr>)))"


text \<open>
  \<^verbatim>\<open>Object.entries(cartData)\<close> lists the own properties: first those whose key is an
  array index (a decimal numeral without a leading zero, below \<open>2 ^ 32 - 1\<close>) by rising
  index, then the others in the order of their creation.
\<close>

definition is_array_index :: "string \<Rightarrow> bool" where
  "is_array_index k =
     (k \<noteq> [] \<and> length k \<le> 10 \<and> list_all is_digit k \<and> (k = ''0'' \<or> hd k \<noteq> CHR ''0'') \<and>
      parse_nat k < 4294967295)"

definition object_entries :: "cart \<Rightarrow> cart" where
  "object_entries cd =
     sort_key (\<lambda>entry. parse_nat (fst entry)) (filter (\<lambda>entry. is_array_index (fst entry)) cd) @
     filter (\<lambda>entry. \<not> is_array_index (fst entry)) cd"

section \<open>Order numbers\<close>

text \<open>
  The sequence segment and the number that the \<^verbatim>\<open>pre('save')\<close> hook builds from
  \<^verbatim>\<open>Date.now()\<close> and \<^verbatim>\<open>countDocuments()\<close>, the count of all stored orders.
\<close>

definition sequence_segment :: "nat \<Rightarrow> string" where
  "sequence_segment count = padStart 4 (CHR ''0'') (toString (count + 1))"

definition generate_order_number :: "nat \<Rightarrow> nat \<Rightarrow> string" where
  "generate_order_number now count = ''ORD-'' @ toString now @ ''-'' @ sequence_segment count"

text \<open>
  The hook runs on a new document, before the insert; it leaves a number that is already
  set alone.
\<close>

definition pre_save :: "nat \<Rightarrow> order list \<Rightarrow> order \<Rightarrow> order" where
  "pre_save now coll doc =
     (if orderNumber doc = [] then doc\<lparr>orderNumber := generate_order_number now (length coll)\<rparr>
      else doc)"

text \<open>
  The environment of one placement: the clock; for each item id the message of the error
  that the cast of the id to the store's id type raises, if it raises one (the cast is the
  library's, and which strings it accepts is left open here); and for each of the two
  writes the message of the error the store raises, if it raises one.
\<close>

record env =
  now :: nat
  cast_fault :: "string \<Rightarrow> string option"
  insert_fault :: "string option"
  update_fault :: "string option"

definition duplicate_key_message :: string where
  "duplicate_key_message = ''E11000 duplicate key error''"

text \<open>
  \<^verbatim>\<open>order.save()\<close>: the hook, the timestamp, then the insert, which the unique index
  on \<open>orderNumber\<close> refuses when the number is already stored. It returns the saved
  document and the collection after the insert, or the message of the error raised.
\<close>

definition order_save :: "env \<Rightarrow> order list \<Rightarrow> order \<Rightarrow> string + order \<times> order list" where
  "order_save e coll doc =
     (let doc' = (pre_save (now e) coll doc)\<lparr>createdAt := now e\<rparr>
      in case insert_fault e of
           Some msg \<Rightarrow> Inl msg
         | None \<Rightarrow>
             if orderNumber doc' \<in> set (map orderNumber coll) then Inl duplicate_key_message
             else Inr (doc', coll @ [doc']))"

section \<open>Order placement\<close>

text \<open>The body of the request: the handler reads \<open>address\<close> and \<open>paymentId\<close> only.\<close>

record place_body =
  body_address :: "delivery_address option"
  body_paymentId :: "string option"
  body_paymentStatus :: "payment_status option"

text \<open>\<^verbatim>\<open>!v\<close> for a string that may be undefined, and \<^verbatim>\<open>address?.field\<close>.\<close>

definition falsy :: "string option \<Rightarrow> bool" where
  "falsy v = (case v of None \<Rightarrow> True | Some str \<Rightarrow> str = [])"

definition opt_field :: "delivery_address option \<Rightarrow> (delivery_address \<Rightarrow> string option) \<Rightarrow> string option" where
  "opt_field a f = (case a of None \<Rightarrow> None | Some ad \<Rightarrow> f ad)"

definition address_incomplete :: "delivery_address option \<Rightarrow> bool" where
  "address_incomplete a =
     (case a of
        None \<Rightarrow> True
      | Some ad \<Rightarrow>
          falsy (firstName ad) \<or> falsy (lastName ad) \<or> falsy (email ad) \<or>
          falsy (street ad) \<or> falsy (city ad) \<or> falsy (state ad) \<or> falsy (zipcode ad) \<or>
          falsy (country ad) \<or> falsy (phone ad))"

definition missingFields :: "delivery_address option \<Rightarrow> (string \<times> bool) list" where
  "missingFields a =
     [(''firstName'', falsy (opt_field a firstName)),
      (''lastName'', falsy (opt_field a lastName)),
      (''email'', falsy (opt_field a email)),
      (''street'', falsy (opt_field a street)),
      (''city'', falsy (opt_field a city)),
      (''state'', falsy (opt_field a state)),
      (''zipcode'', falsy (opt_field a zipcode)),
      (''country'', falsy (opt_field a country)),
      (''phone'', falsy (opt_field a phone))]"

text \<open>
  \<^verbatim>\<open>Food.findById(itemId)\<close> casts the id first and raises when the cast fails;
  otherwise it answers the document or \<^verbatim>\<open>null\<close>.
\<close>

definition findById :: "env \<Rightarrow> (string \<rightharpoonup> food) \<Rightarrow> string \<Rightarrow> string + food option" where
  "findById e fd itemId =
     (case cast_fault e itemId of Some msg \<Rightarrow> Inl msg | None \<Rightarrow> Inr (fd itemId))"

text \<open>
  \<^verbatim>\<open>Object.entries(cartData).filter(([_, quantity]) => quantity > 0)\<close>: the comparison
  holds for a positive number only (a string of the cart is the text of an inherited
  function or object followed by digits, which compares as \<^verbatim>\<open>NaN\<close>).
\<close>

definition positive_entries :: "cart \<Rightarrow> (string \<times> int) list" where
  "positive_entries cd =
     List.map_filter
       (\<lambda>entry. case snd entry of
                   Num n \<Rightarrow> if n > 0 then Some (fst entry, n) else None
                 | Text \<Rightarrow> None
                 | Not_a_number \<Rightarrow> None)
       (object_entries cd)"

text \<open>
  The loop over the cart entries: it stops at the first entry whose item does not resolve
  or is not available, and otherwise appends the line item and adds its total. An error
  that the lookup raises is not caught in the loop: it ends the handler in its
  \<^verbatim>\<open>catch\<close> block, with status 500.
\<close>

fun build_items ::
  "env \<Rightarrow> (string \<rightharpoonup> food) \<Rightarrow> (string \<times> int) list \<Rightarrow> order_item list \<Rightarrow> rat
     \<Rightarrow> error + order_item list \<times> rat" where
  "build_items e fd [] orderItems subtotal = Inr (orderItems, subtotal)"
| "build_items e fd ((itemId, qty) # rest) orderItems subtotal =
     (case findById e fd itemId of
        Inl msg \<Rightarrow> Inl (ServerError (''Failed to place order: '' @ msg))
      | Inr None \<Rightarrow> Inl (FoodNotFound itemId)
      | Inr (Some foodItem) \<Rightarrow>
          if \<not> isAvailable foodItem then Inl (FoodUnavailable (name foodItem))
          else (let itemTotal = js_mul (price foodItem) (of_int qty)
                in build_items e fd rest
                     (orderItems @
                        [\<lparr>foodId = itemId, item_name = name foodItem, item_price = price foodItem,
                          quantity = qty, item_image = image foodItem\<rparr>])
                     (js_add subtotal itemTotal)))"

text \<open>
  The document that \<^verbatim>\<open>new Order({...})\<close> builds: status and payment status are the
  literals of the handler, the payment id is \<^verbatim>\<open>paymentId || null\<close>, the order number
  is not set yet.
\<close>

definition new_order ::
  "string \<Rightarrow> order_item list \<Rightarrow> rat \<Rightarrow> rat \<Rightarrow> rat \<Rightarrow> delivery_address \<Rightarrow> string option
     \<Rightarrow> order" where
  "new_order uid orderItems subtotal fee totalAmt addr pid =
     \<lparr>userId = uid, orderNumber = [], items = orderItems, amount = subtotal,
      deliveryFee = fee, totalAmount = totalAmt, address = addr, status = Food_Processing,
      paymentStatus = Pending, paymentId = (if falsy pid then None else pid),
      createdAt = 0\<rparr>"

text \<open>
  \<^verbatim>\<open>POST /api/order/place\<close>. The answer to a success carries fields of the saved
  document, which the model returns whole. The user id is the one the authentication
  middleware has set.
\<close>

definition order_place :: "env \<Rightarrow> db \<Rightarrow> string \<Rightarrow> place_body \<Rightarrow> (error + order) \<times> db" where
  "order_place e s uid body =
     (if address_incomplete (body_address body)
      then (Inl (AddressIncomplete (missingFields (body_address body))), s)
      else case users s uid of
        None \<Rightarrow> (Inl UserNotFound, s)
      | Some u \<Rightarrow>
          (let cartItems = positive_entries (cartData u) in
           if cartItems = [] then (Inl CartEmpty, s)
           else case build_items e (foods s) cartItems [] 0 of
             Inl err \<Rightarrow> (Inl err, s)
           | Inr (orderItems, subtotal) \<Rightarrow>
               (let fee = 2;
                    total = js_add subtotal fee;
                    doc = new_order uid orderItems subtotal fee total
                            (the (body_address body)) (body_paymentId body)
                in case order_save e (orders s) doc of
                     Inl msg \<Rightarrow> (Inl (ServerError (''Failed to place order: '' @ msg)), s)
                   | Inr (saved, coll) \<Rightarrow>
                       (let s1 = s\<lparr>orders := coll\<rparr> in
                        case update_fault e of
                          Some msg \<Rightarrow> (Inl (ServerError (''Failed to place order: '' @ msg)), s1)
                        | None \<Rightarrow>
                            (Inr saved,
                             s1\<lparr>users := (users s1)(uid \<mapsto> u\<lparr>cartData := []\<rparr>)\<rparr>)))))"

section \<open>Order listing\<close>









section \<open>Notions used to state the properties\<close>

subsection \<open>Carts\<close>

text \<open>
  A well-formed cart: every key occurs once, as in an object, and every stored value is a
  positive number. \<open>cart_quantity\<close> is the quantity stored for an item, 0 when there is
  none. A plain key is one that \<^verbatim>\<open>Object.prototype\<close> does not define.
\<close>

fun positive_quantity :: "cart_value \<Rightarrow> bool" where
  "positive_quantity (Num n) = (0 < n)"
| "positive_quantity Text = False"
| "positive_quantity Not_a_number = False"

definition cart_ok :: "cart \<Rightarrow> bool" where
  "cart_ok cd = (distinct (map fst cd) \<and> list_all (\<lambda>entry. positive_quantity (snd entry)) cd)"

definition cart_quantity :: "cart \<Rightarrow> string \<Rightarrow> int" where
  "cart_quantity cd k = (case map_of cd k of Some (Num n) \<Rightarrow> n | _ \<Rightarrow> 0)"

definition plain_key :: "string \<Rightarrow> bool" where
  "plain_key k = (k \<notin> set prototype_names)"

text \<open>A sequence of calls of the two cart routes by one user, each answered by the store.\<close>

datatype cart_op = AddItem string int | RemoveItem string int

fun op_quantity :: "cart_op \<Rightarrow> int" where
  "op_quantity (AddItem k d) = d"
| "op_quantity (RemoveItem k d) = d"

fun op_key :: "cart_op \<Rightarrow> string" where
  "op_key (AddItem k d) = k"
| "op_key (RemoveItem k d) = k"





subsection \<open>Line items\<close>

text \<open>
  The failure of the first cart entry, in the order of the entries, whose lookup raises,
  whose item does not resolve or whose item is not available; the line item of an entry
  that resolves; and the subtotal of a list of line items, added up from 0 in their order.
\<close>

definition entry_failure :: "env \<Rightarrow> (string \<rightharpoonup> food) \<Rightarrow> string \<Rightarrow> error" where
  "entry_failure e fd itemId =
     (case cast_fault e itemId of
        Some msg \<Rightarrow> ServerError (''Failed to place order: '' @ msg)
      | None \<Rightarrow>
          (case fd itemId of
             None \<Rightarrow> FoodNotFound itemId
           | Some foodItem \<Rightarrow> FoodUnavailable (name foodItem)))"

text \<open>
  An item id offends when its lookup raises, when it resolves to no food item, or when it
  resolves to one that is not available.
\<close>

definition offending :: "env \<Rightarrow> (string \<rightharpoonup> food) \<Rightarrow> string \<Rightarrow> bool" where
  "offending e fd itemId =
     (cast_fault e itemId \<noteq> None \<or>
      (case fd itemId of None \<Rightarrow> True | Some foodItem \<Rightarrow> \<not> isAvailable foodItem))"

definition first_failure :: "env \<Rightarrow> (string \<rightharpoonup> food) \<Rightarrow> (string \<times> int) list \<Rightarrow> error option" where
  "first_failure e fd entries =
     map_option (\<lambda>entry. entry_failure e fd (fst entry))
       (find (\<lambda>entry. offending e fd (fst entry)) entries)"

definition line_item :: "(string \<rightharpoonup> food) \<Rightarrow> string \<times> int \<Rightarrow> order_item" where
  "line_item fd entry =
     (let foodItem = the (fd (fst entry))
      in \<lparr>foodId = fst entry, item_name = name foodItem, item_price = price foodItem,
          quantity = snd entry, item_image = image foodItem\<rparr>)"

definition line_total :: "order_item \<Rightarrow> rat" where
  "line_total item = js_mul (item_price item) (of_int (quantity item))"

definition sum_lines :: "rat \<Rightarrow> order_item list \<Rightarrow> rat" where
  "sum_lines start lines = foldl (\<lambda>acc item. js_add acc (line_total item)) start lines"

subsection \<open>Reading an order number back\<close>

definition last_segment :: "string \<Rightarrow> string" where
  "last_segment str = rev (takeWhile (\<lambda>c. c \<noteq> CHR ''-'') (rev str))"

definition order_seq :: "string \<Rightarrow> nat" where
  "order_seq num = parse_nat (last_segment num)"

text \<open>
  A collection whose orders were all inserted by \<open>order_save\<close> and never deleted: the
  order at position \<open>i\<close> carries the sequence number \<open>i + 1\<close>.
\<close>

definition numbered :: "order list \<Rightarrow> bool" where
  "numbered coll = (map (\<lambda>ord. order_seq (orderNumber ord)) coll = [1..<Suc (length coll)])"

subsection \<open>A concrete store\<close>

text \<open>
  Ids as the store issues them, strings of 24 hexadecimal digits, which the id cast
  accepts. The environment of the examples accepts these and refuses the other strings,
  of which the examples look up only \<open>ghost\<close>, too short for an id of the store.
\<close>

abbreviation user_1 :: string where "user_1 \<equiv> ''64f000000000000000000a01''"
abbreviation user_2 :: string where "user_2 \<equiv> ''64f000000000000000000a02''"
abbreviation item_a :: string where "item_a \<equiv> ''64f000000000000000000b01''"
abbreviation item_b :: string where "item_b \<equiv> ''64f000000000000000000b02''"

definition is_hex :: "char \<Rightarrow> bool" where
  "is_hex c = (c \<in> set ''0123456789abcdefABCDEF'')"

definition hex24 :: "string \<Rightarrow> bool" where
  "hex24 str = (length str = 24 \<and> list_all is_hex str)"

definition demo_address :: delivery_address where
  "demo_address =
     \<lparr>firstName = Some ''John'', lastName = Some ''Doe'', email = Some ''john@example.com'',
      street = Some ''123 Main St'', city = Some ''Anytown'', state = Some ''CA'',
      zipcode = Some ''12345'', country = Some ''USA'', phone = Some ''555-1234''\<rparr>"

definition demo_body :: place_body where
  "demo_body = \<lparr>body_address = Some demo_address, body_paymentId = None,
                 body_paymentStatus = None\<rparr>"

definition demo_env :: env where
  "demo_env =
     \<lparr>now = 1700000000000,
      cast_fault = (\<lambda>itemId. if hex24 itemId then None
                             else Some (''Cast to ObjectId failed for value '' @ itemId)),
      insert_fault = None, update_fault = None\<rparr>"

definition food_a :: food where
  "food_a = \<lparr>name = ''Pizza'', description = ''Margherita'', price = js_literal (1099 / 100),
              image = ''pizza.png'', category = ''Pasta'', isAvailable = True\<rparr>"

definition food_b :: food where
  "food_b = \<lparr>name = ''Salad'', description = ''Greek'', price = js_literal (17 / 2),
              image = ''salad.png'', category = ''Salad'', isAvailable = True\<rparr>"

definition demo_db :: db where
  "demo_db =
     \<lparr>users = [user_1 \<mapsto> \<lparr>cartData = [(item_a, Num 2), (item_b, Num 1)]\<rparr>],
      foods = [item_a \<mapsto> food_a, item_b \<mapsto> food_b],
      orders = []\<rparr>"

text \<open>
  Variants of the store: the first item not available and the second absent from the
  catalog; the first item absent; and a body whose address lacks the zipcode and has an
  empty phone, or that carries a payment status.
\<close>

definition demo_db_mixed :: db where
  "demo_db_mixed = demo_db\<lparr>foods := [item_a \<mapsto> food_a\<lparr>isAvailable := False\<rparr>]\<rparr>"

definition demo_db_missing :: db where
  "demo_db_missing = demo_db\<lparr>foods := [item_b \<mapsto> food_b]\<rparr>"

definition demo_body_partial :: place_body where
  "demo_body_partial =
     demo_body\<lparr>body_address := Some (demo_address\<lparr>zipcode := None, phone := Some []\<rparr>)\<rparr>"

definition demo_body_paid :: place_body where
  "demo_body_paid = demo_body\<lparr>body_paymentStatus := Some Paid\<rparr>"



text \<open>A store with two users whose carts are both ready for placement.\<close>

definition demo_db_two :: db where
  "demo_db_two =
     demo_db\<lparr>users := [user_1 \<mapsto> \<lparr>cartData = [(item_a, Num 2), (item_b, Num 1)]\<rparr>,
                        user_2 \<mapsto> \<lparr>cartData = [(item_b, Num 3)]\<rparr>]\<rparr>"


text \<open>
  Carts as the add route leaves them: the absent first item at quantity 0 beside the second
  item; and one entry whose key is no id of the store.
\<close>

definition demo_db_zero :: db where
  "demo_db_zero =
     demo_db_missing\<lparr>users := [user_1 \<mapsto> \<lparr>cartData = [(item_a, Num 0), (item_b, Num 1)]\<rparr>]\<rparr>"

definition demo_db_ghost :: db where
  "demo_db_ghost = demo_db\<lparr>users := [user_1 \<mapsto> \<lparr>cartData = [(''ghost'', Num 1)]\<rparr>]\<rparr>"

section \<open>Rounding\<close>

text \<open>
  The rounding agrees with binary64 on the usual examples: the literals 0.1 and 0.3, the
  sum 0.1 + 0.2, which is 0.30000000000000004 and not 0.3, and the ties at
  \<open>2 ^ 53 + 1\<close> and \<open>2 ^ 53 + 3\<close>, which go to the even significand.
\<close>

lemma round_double_examples:
  "js_literal (1 / 10) = 3602879701896397 / 36028797018963968"
  "js_literal (3 / 10) = 5404319552844595 / 18014398509481984"
  "js_add (js_literal (1 / 10)) (js_literal (1 / 5)) = 1351079888211149 / 4503599627370496"
  "round_double 9007199254740993 = 9007199254740992"
  "round_double 9007199254740995 = 9007199254740996"
  "round_double (- (17 / 2)) = - (17 / 2)"
  by code_simp+

text \<open>
  Rounding keeps the sign, takes a value of at least 1 to a value of at least 1, and is
  exact on the integers up to \<open>2 ^ 53\<close> in absolute value.
\<close>

lemma ilog2_bounds: "1 \<le> n \<Longrightarrow> 2 ^ ilog2 n \<le> n \<and> n < 2 ^ Suc (ilog2 n)"
proof (induction n rule: ilog2.induct)
  case (1 n)
  show ?case
  proof (cases "n < 2")
    case True
    with "1.prems" have "n = 1" by simp
    then show ?thesis by (subst (1 2) ilog2.simps) simp
  next
    case False
    then have ih: "2 ^ ilog2 (n div 2) \<le> n div 2 \<and> n div 2 < 2 ^ Suc (ilog2 (n div 2))"
      using "1.IH" by simp
    have s: "ilog2 n = Suc (ilog2 (n div 2))"
      using False by (subst ilog2.simps) simp
    from ih have "2 * 2 ^ ilog2 (n div 2) \<le> n" "n < 2 * 2 ^ Suc (ilog2 (n div 2))"
      by linarith+
    then show ?thesis by (simp add: s del: ilog2.simps)
  qed
qed

lemma pow2_pos: "0 < pow2 e"
  by (simp add: pow2_def)

lemma pow2_scale: "pow2 (int e - int k) * 2 ^ k = 2 ^ e"
proof (cases "k \<le> e")
  case True
  then have "pow2 (int e - int k) = 2 ^ (e - k)"
    by (simp add: pow2_def nat_diff_distrib')
  then have "pow2 (int e - int k) * 2 ^ k = 2 ^ (e - k + k)"
    by (simp only: power_add)
  with True show ?thesis by simp
next
  case False
  then have p: "pow2 (int e - int k) = 1 / 2 ^ (k - e)"
    by (simp add: pow2_def nat_diff_distrib')
  have "(2 :: rat) ^ k = 2 ^ (k - e + e)"
    using False by simp
  then have "(2 :: rat) ^ k = 2 ^ (k - e) * 2 ^ e"
    by (simp only: power_add)
  then show ?thesis by (simp add: p)
qed


lemma round_half_even_ge_floor: "\<lfloor>m\<rfloor> \<le> round_half_even m"
  by (simp add: round_half_even_def Let_def)

lemma exponent_of_ge1:
  assumes "1 \<le> x"
  shows "2 ^ ilog2 \<lfloor>x\<rfloor> \<le> x" and "exponent_of x = int (ilog2 \<lfloor>x\<rfloor>)"
proof -
  have "1 \<le> \<lfloor>x\<rfloor>" using assms by simp
  from ilog2_bounds [OF this] have "2 ^ ilog2 \<lfloor>x\<rfloor> \<le> \<lfloor>x\<rfloor>" by simp
  then have "(of_int (2 ^ ilog2 \<lfloor>x\<rfloor>) :: rat) \<le> of_int \<lfloor>x\<rfloor>"
    by (simp only: of_int_le_iff)
  also have "\<dots> \<le> x" by simp
  finally show "2 ^ ilog2 \<lfloor>x\<rfloor> \<le> x" by simp
  show "exponent_of x = int (ilog2 \<lfloor>x\<rfloor>)"
    using assms by (simp add: exponent_of_def)
qed

lemma round_double_ge1:
  assumes "1 \<le> x"
  shows "1 \<le> round_double x"
proof -
  define e where "e = ilog2 \<lfloor>x\<rfloor>"
  define u where "u = pow2 (int e - 52)"
  define p :: rat where "p = 2 ^ 52"
  define m where "m = round_half_even (x / u)"
  have u: "0 < u" by (simp add: u_def pow2_pos)
  have lo: "2 ^ e \<le> x" and ex: "exponent_of x = int e"
    using exponent_of_ge1 [OF assms] by (simp_all add: e_def)
  have up: "u * p = 2 ^ e"
    using pow2_scale [of e 52] by (simp add: u_def p_def)
  define P :: int where "P = 2 ^ 52"
  have pi: "p = of_int P"
    by (simp add: p_def P_def)
  have "u * p \<le> x"
    using lo by (simp only: up)
  then have "p \<le> x / u"
    using u by (simp add: pos_le_divide_eq mult.commute)
  then have "P \<le> \<lfloor>x / u\<rfloor>"
    unfolding pi by (simp only: le_floor_iff)
  moreover have "\<lfloor>x / u\<rfloor> \<le> m"
    unfolding m_def by (rule round_half_even_ge_floor)
  ultimately have "P \<le> m"
    by (rule order_trans)
  then have "p \<le> of_int m"
    unfolding pi by (simp only: of_int_le_iff)
  then have "p * u \<le> of_int m * u"
    using u by (simp add: mult_right_mono)
  then have "2 ^ e \<le> of_int m * u"
    using up by (simp add: mult.commute)
  moreover have "(1 :: rat) \<le> 2 ^ e" by simp
  moreover have "round_double x = of_int m * u"
    using assms by (simp add: round_double_def ex u_def m_def Let_def)
  ultimately show ?thesis by linarith
qed








lemma js_add_int_pos: "0 < a \<Longrightarrow> 0 < b \<Longrightarrow> 0 < js_add_int a b"
proof -
  assume "0 < a" "0 < b"
  then have "(1 :: rat) \<le> of_int a + of_int b"
    by (metis add_pos_pos of_int_add of_int_1_le_iff int_one_le_iff_zero_less)
  from round_double_ge1 [OF this] show ?thesis
    by (simp add: js_add_int_def)
qed

lemma js_sub_int_pos: "b < a \<Longrightarrow> 0 < js_sub_int a b"
proof -
  assume "b < a"
  then have "1 \<le> a - b" by simp
  then have "(1 :: rat) \<le> of_int (a - b)"
    by (simp only: of_int_1_le_iff)
  then have "(1 :: rat) \<le> of_int a - of_int b" by simp
  from round_double_ge1 [OF this] show ?thesis
    by (simp add: js_sub_int_def)
qed


section \<open>Properties of the cart routes\<close>

text \<open>
  Keys that are array indices come first, by rising index, whenever they were created.
\<close>

lemma object_entries_order:
  "object_entries [(item_a, Num 1), (''10'', Num 2), (''5'', Num 3), (''05'', Num 4)] =
     [(''5'', Num 3), (''10'', Num 2), (item_a, Num 1), (''05'', Num 4)]"
  by (simp add: object_entries_def is_array_index_def is_digit_def parse_nat_def digit_val_def)

lemma plain_key_proto: "plain_key k \<Longrightarrow> k \<noteq> ''__proto__''"
  by (auto simp: plain_key_def prototype_names_def)

lemma cart_ok_value: "cart_ok cd \<Longrightarrow> map_of cd k = Some v \<Longrightarrow> \<exists>n. v = Num n \<and> 0 < n"
proof -
  assume ok: "cart_ok cd" and m: "map_of cd k = Some v"
  from m have "(k, v) \<in> set cd" by (rule map_of_SomeD)
  with ok have "positive_quantity v" by (auto simp: cart_ok_def list_all_iff)
  then show ?thesis by (cases v) simp_all
qed

lemma cart_quantity_nonneg: "cart_ok cd \<Longrightarrow> 0 \<le> cart_quantity cd k"
  by (cases "map_of cd k") (auto simp: cart_quantity_def dest!: cart_ok_value)

lemma cart_quantity_update:
  "cart_quantity (AList.update k (Num v) cd) j = (if j = k then v else cart_quantity cd j)"
  by (simp add: cart_quantity_def update_conv')


lemma cart_read_plain:
  assumes "cart_ok cd" and "plain_key k"
  shows "cart_read cd k = (if cart_quantity cd k = 0 then Undefined else Own (Num (cart_quantity cd k)))"
proof (cases "map_of cd k")
  case None
  with assms(2) show ?thesis by (simp add: cart_read_def cart_quantity_def plain_key_def)
next
  case (Some v)
  with cart_ok_value [OF assms(1) Some] show ?thesis
    by (auto simp: cart_read_def cart_quantity_def)
qed

lemma add_to_cart_plain:
  assumes "cart_ok cd" and "plain_key k"
  shows "add_to_cart cd k d =
     AList.update k (Num (if cart_quantity cd k = 0 then d else js_add_int (cart_quantity cd k) d)) cd"
  using plain_key_proto [OF assms(2)]
  by (simp add: add_to_cart_def cart_read_plain [OF assms] cart_assign_def)



lemma list_all_update:
  "list_all (\<lambda>entry. P (snd entry)) cd \<Longrightarrow> P v \<Longrightarrow> list_all (\<lambda>entry. P (snd entry)) (AList.update k v cd)"
  by (induction cd) auto


lemma cart_ok_update: "cart_ok cd \<Longrightarrow> 0 < v \<Longrightarrow> cart_ok (AList.update k (Num v) cd)"
  unfolding cart_ok_def using list_all_update [of positive_quantity cd "Num v" k]
  by (simp add: distinct_update)



lemma cart_ok_add:
  assumes "cart_ok cd" and "plain_key k" and "0 < d"
  shows "cart_ok (add_to_cart cd k d)"
    and "cart_quantity (add_to_cart cd k d) j =
           (if j = k then (if cart_quantity cd k = 0 then d else js_add_int (cart_quantity cd k) d)
            else cart_quantity cd j)"
proof -
  have "0 < (if cart_quantity cd k = 0 then d else js_add_int (cart_quantity cd k) d)"
    using cart_quantity_nonneg [OF assms(1), of k] assms(3) by (simp add: js_add_int_pos)
  then show "cart_ok (add_to_cart cd k d)"
    unfolding add_to_cart_plain [OF assms(1,2)] by (rule cart_ok_update [OF assms(1)])
  show "cart_quantity (add_to_cart cd k d) j =
           (if j = k then (if cart_quantity cd k = 0 then d else js_add_int (cart_quantity cd k) d)
            else cart_quantity cd j)"
    unfolding add_to_cart_plain [OF assms(1,2)] by (rule cart_quantity_update)
qed








lemma sum_list_op_quantity_nonneg:
  "\<forall>x\<in>set ops. 0 < op_quantity x \<and> plain_key (op_key x) \<Longrightarrow> 0 \<le> sum_list (map op_quantity ops)"
  by (intro sum_list_nonneg) auto





section \<open>Order placement\<close>


lemma sum_lines_Cons: "sum_lines start (l # ls) = sum_lines (js_add start (line_total l)) ls"
  by (simp add: sum_lines_def)

lemma build_items_eq:
  "build_items e fd xs acc sub =
     (case first_failure e fd xs of
        Some err \<Rightarrow> Inl err
      | None \<Rightarrow> Inr (acc @ map (line_item fd) xs, sum_lines sub (map (line_item fd) xs)))"
proof (induction xs arbitrary: acc sub)
  case Nil
  show ?case by (simp add: sum_lines_def first_failure_def)
next
  case (Cons x xs)
  obtain i q where x: "x = (i, q)" by (cases x)
  show ?case
  proof (cases "offending e fd i")
    case True
    then show ?thesis unfolding x
      by (auto simp: first_failure_def offending_def entry_failure_def findById_def
          split: option.splits)
  next
    case False
    then obtain f where f: "cast_fault e i = None" "fd i = Some f" "isAvailable f"
      by (auto simp: offending_def split: option.splits)
    have l: "line_item fd (i, q) =
        \<lparr>foodId = i, item_name = name f, item_price = price f, quantity = q, item_image = image f\<rparr>"
      using f by (simp add: line_item_def)
    have ff: "first_failure e fd ((i, q) # xs) = first_failure e fd xs"
      using False by (simp add: first_failure_def)
    show ?thesis
      unfolding x ff using f Cons.IH
      by (simp add: findById_def Let_def sum_lines_Cons l line_total_def split: option.splits)
  qed
qed

text \<open>The handler, once the address is complete, the user found and the cart checked.\<close>

lemma order_place_checked:
  assumes "\<not> address_incomplete (body_address body)" and "users s uid = Some u"
    and "positive_entries (cartData u) \<noteq> []"
    and "first_failure e (foods s) (positive_entries (cartData u)) = None"
  shows "order_place e s uid body =
     (let lines = map (line_item (foods s)) (positive_entries (cartData u));
          doc = new_order uid lines (sum_lines 0 lines) 2 (js_add (sum_lines 0 lines) 2)
                  (the (body_address body)) (body_paymentId body)
      in case order_save e (orders s) doc of
           Inl msg \<Rightarrow> (Inl (ServerError (''Failed to place order: '' @ msg)), s)
         | Inr (saved, coll) \<Rightarrow>
             (case update_fault e of
                Some msg \<Rightarrow> (Inl (ServerError (''Failed to place order: '' @ msg)), s\<lparr>orders := coll\<rparr>)
              | None \<Rightarrow> (Inr saved, s\<lparr>orders := coll, users := (users s)(uid \<mapsto> u\<lparr>cartData := []\<rparr>)\<rparr>)))"
  using assms
  by (simp add: order_place_def build_items_eq Let_def
      split: sum.splits prod.splits option.splits)

lemma order_place_failure:
  assumes "\<not> address_incomplete (body_address body)" and "users s uid = Some u"
    and "positive_entries (cartData u) \<noteq> []"
    and "first_failure e (foods s) (positive_entries (cartData u)) = Some err"
  shows "order_place e s uid body = (Inl err, s)"
  using assms
  by (simp add: order_place_def build_items_eq Let_def)

lemma order_place_empty:
  assumes "\<not> address_incomplete (body_address body)" and "users s uid = Some u"
    and "positive_entries (cartData u) = []"
  shows "order_place e s uid body = (Inl CartEmpty, s)"
  using assms
  by (simp add: order_place_def Let_def)

lemma order_save_cases:
  "order_save e coll doc =
     (case insert_fault e of
        Some msg \<Rightarrow> Inl msg
      | None \<Rightarrow>
          (let saved = (pre_save (now e) coll doc)\<lparr>createdAt := now e\<rparr>
           in if orderNumber saved \<in> orderNumber ` set coll then Inl duplicate_key_message
              else Inr (saved, coll @ [saved])))"
  by (simp add: order_save_def Let_def split: option.splits)

lemma find_offending:
  "(k, n) \<in> set xs \<Longrightarrow> offending e fd k \<Longrightarrow> \<exists>i q. find (\<lambda>entry. offending e fd (fst entry)) xs = Some (i, q)"
  by (cases "find (\<lambda>entry. offending e fd (fst entry)) xs") (auto simp: find_None_iff)

lemma first_failure_range:
  "first_failure e fd xs = Some err \<Longrightarrow>
     (\<exists>i. err = FoodNotFound i) \<or> (\<exists>nm. err = FoodUnavailable nm) \<or> (\<exists>msg. err = ServerError msg)"
  by (auto simp: first_failure_def entry_failure_def split: option.splits)

text \<open>Every answer of the handler, by the first check that fails.\<close>

lemma order_place_cases:
  "order_place e s uid body =
     (if address_incomplete (body_address body)
      then (Inl (AddressIncomplete (missingFields (body_address body))), s)
      else case users s uid of
        None \<Rightarrow> (Inl UserNotFound, s)
      | Some u \<Rightarrow>
          if positive_entries (cartData u) = [] then (Inl CartEmpty, s)
          else case first_failure e (foods s) (positive_entries (cartData u)) of
            Some err \<Rightarrow> (Inl err, s)
          | None \<Rightarrow>
             (let lines = map (line_item (foods s)) (positive_entries (cartData u));
                  doc = new_order uid lines (sum_lines 0 lines) 2 (js_add (sum_lines 0 lines) 2)
                          (the (body_address body)) (body_paymentId body)
              in case order_save e (orders s) doc of
                   Inl msg \<Rightarrow> (Inl (ServerError (''Failed to place order: '' @ msg)), s)
                 | Inr (saved, coll) \<Rightarrow>
                     (case update_fault e of
                        Some msg \<Rightarrow>
                          (Inl (ServerError (''Failed to place order: '' @ msg)), s\<lparr>orders := coll\<rparr>)
                      | None \<Rightarrow>
                          (Inr saved,
                           s\<lparr>orders := coll, users := (users s)(uid \<mapsto> u\<lparr>cartData := []\<rparr>)\<rparr>))))"
proof (cases "address_incomplete (body_address body)")
  case True
  then show ?thesis by (simp add: order_place_def)
next
  case addr: False
  show ?thesis
  proof (cases "users s uid")
    case None
    with addr show ?thesis by (simp add: order_place_def)
  next
    case (Some u)
    show ?thesis
    proof (cases "positive_entries (cartData u) = []")
      case True
      with addr Some show ?thesis by (simp add: order_place_empty)
    next
      case ne: False
      show ?thesis
      proof (cases "first_failure e (foods s) (positive_entries (cartData u))")
        case None
        with addr Some ne show ?thesis by (simp add: order_place_checked)
      next
        case (Some err)
        with addr \<open>users s uid = Some u\<close> ne show ?thesis by (simp add: order_place_failure)
      qed
    qed
  qed
qed

text \<open>What a successful placement has done.\<close>

lemma order_place_success:
  assumes "order_place e s uid body = (Inr ord, s')"
  shows "\<exists>u. \<not> address_incomplete (body_address body) \<and> users s uid = Some u \<and>
           positive_entries (cartData u) \<noteq> [] \<and>
           first_failure e (foods s) (positive_entries (cartData u)) = None \<and>
           insert_fault e = None \<and> update_fault e = None \<and>
           ord = (new_order uid (map (line_item (foods s)) (positive_entries (cartData u)))
                   (sum_lines 0 (map (line_item (foods s)) (positive_entries (cartData u)))) 2
                   (js_add (sum_lines 0 (map (line_item (foods s)) (positive_entries (cartData u)))) 2)
                   (the (body_address body)) (body_paymentId body))
                 \<lparr>orderNumber := generate_order_number (now e) (length (orders s)),
                  createdAt := now e\<rparr> \<and>
           orderNumber ord \<notin> orderNumber ` set (orders s) \<and>
           s' = s\<lparr>orders := orders s @ [ord], users := (users s)(uid \<mapsto> u\<lparr>cartData := []\<rparr>)\<rparr>"
  using assms
  by (auto simp: order_place_cases order_save_cases Let_def pre_save_def new_order_def
      split: if_splits option.splits sum.splits prod.splits)

lemma set_object_entries: "set (object_entries cd) = set cd"
  by (auto simp: object_entries_def)

lemma positive_entries_mem:
  "((k, n) \<in> set (positive_entries cd)) = ((k, Num n) \<in> set cd \<and> 0 < n)"
proof -
  have "((k, n) \<in> set (positive_entries cd)) = ((k, Num n) \<in> set (object_entries cd) \<and> 0 < n)"
    unfolding positive_entries_def map_filter_def
    by (force split: cart_value.splits if_splits)
  then show ?thesis by (simp add: set_object_entries)
qed

lemma positive_entries_empty:
  "(positive_entries cd = []) = (\<forall>entry\<in>set cd. \<not> positive_quantity (snd entry))"
proof
  assume e: "positive_entries cd = []"
  show "\<forall>entry\<in>set cd. \<not> positive_quantity (snd entry)"
  proof
    fix entry assume m: "entry \<in> set cd"
    show "\<not> positive_quantity (snd entry)"
    proof
      assume "positive_quantity (snd entry)"
      then obtain n where "snd entry = Num n" "0 < n" by (cases "snd entry") simp_all
      with m have "(fst entry, n) \<in> set (positive_entries cd)"
        by (simp add: positive_entries_mem) (metis prod.collapse)
      with e show False by simp
    qed
  qed
next
  assume a: "\<forall>entry\<in>set cd. \<not> positive_quantity (snd entry)"
  show "positive_entries cd = []"
  proof (rule ccontr)
    assume "positive_entries cd \<noteq> []"
    then obtain k n where "(k, n) \<in> set (positive_entries cd)"
      by (cases "positive_entries cd") auto
    then have "(k, Num n) \<in> set cd" "0 < n" by (simp_all add: positive_entries_mem)
    with a show False by force
  qed
qed

text \<open>
  C6. When no entry of the user's cart has a positive quantity (every quantity is zero or
  less, or no number; in particular when the cart has no entry), placement changes
  nothing, so it creates no order, and it fails; with a complete address the failure is
  the "Cart is empty" answer with status 400.
\<close>

theorem empty_cart_rejected:
  assumes "users s uid = Some u" and "\<forall>entry\<in>set (cartData u). \<not> positive_quantity (snd entry)"
  shows "snd (order_place e s uid body) = s \<and>
         orders (snd (order_place e s uid body)) = orders s \<and>
         (\<exists>err. fst (order_place e s uid body) = Inl err) \<and>
         (\<not> address_incomplete (body_address body) \<longrightarrow>
            order_place e s uid body = (Inl CartEmpty, s) \<and>
            message CartEmpty = ''Cart is empty'' \<and> http_status CartEmpty = 400)"
proof -
  have "positive_entries (cartData u) = []"
    using assms(2) by (simp add: positive_entries_empty)
  with assms(1) show ?thesis by (simp add: order_place_cases)
qed

theorem empty_cart_rejected_witness:
  "users (demo_db\<lparr>users := [user_1 \<mapsto> \<lparr>cartData = [(item_a, Num 0), (item_b, Num (- 2))]\<rparr>]\<rparr>) user_1 =
     Some \<lparr>cartData = [(item_a, Num 0), (item_b, Num (- 2))]\<rparr> \<and>
   list_all (\<lambda>entry. \<not> positive_quantity (snd entry)) [(item_a, Num 0), (item_b, Num (- 2))] \<and>
   \<not> address_incomplete (body_address demo_body) \<and>
   order_place demo_env (demo_db\<lparr>users := [user_1 \<mapsto> \<lparr>cartData = [(item_a, Num 0), (item_b, Num (- 2))]\<rparr>]\<rparr>)
       user_1 demo_body =
     (Inl CartEmpty, demo_db\<lparr>users := [user_1 \<mapsto> \<lparr>cartData = [(item_a, Num 0), (item_b, Num (- 2))]\<rparr>]\<rparr>)"
proof -
  let ?s = "demo_db\<lparr>users := [user_1 \<mapsto> \<lparr>cartData = [(item_a, Num 0), (item_b, Num (- 2))]\<rparr>]\<rparr>"
  have h1: "users ?s user_1 = Some \<lparr>cartData = [(item_a, Num 0), (item_b, Num (- 2))]\<rparr>"
    by simp
  have h2: "\<forall>entry\<in>set (cartData \<lparr>cartData = [(item_a, Num 0), (item_b, Num (- 2))]\<rparr>).
      \<not> positive_quantity (snd entry)"
    by simp
  have h3: "\<not> address_incomplete (body_address demo_body)"
    by (simp add: address_incomplete_def demo_body_def demo_address_def falsy_def)
  from empty_cart_rejected [OF h1 h2, of demo_env demo_body] h1 h3 show ?thesis
    by simp
qed

lemma order_place_not_address:
  assumes "\<not> address_incomplete (body_address body)"
  shows "fst (order_place e s uid body) \<noteq> Inl (AddressIncomplete flags)"
proof (cases "users s uid")
  case None
  with assms show ?thesis by (simp add: order_place_cases)
next
  case (Some u)
  show ?thesis
  proof (cases "positive_entries (cartData u) = []")
    case True
    with assms Some show ?thesis by (simp add: order_place_cases)
  next
    case ne: False
    show ?thesis
    proof (cases "first_failure e (foods s) (positive_entries (cartData u))")
      case (Some err)
      with first_failure_range [OF Some] assms \<open>users s uid = Some u\<close> ne show ?thesis
        by (auto simp: order_place_failure)
    next
      case None
      define doc where "doc = new_order uid (map (line_item (foods s)) (positive_entries (cartData u)))
                   (sum_lines 0 (map (line_item (foods s)) (positive_entries (cartData u)))) 2
                   (js_add (sum_lines 0 (map (line_item (foods s)) (positive_entries (cartData u)))) 2)
                   (the (body_address body)) (body_paymentId body)"
      have eq: "order_place e s uid body =
         (case order_save e (orders s) doc of
           Inl msg \<Rightarrow> (Inl (ServerError (''Failed to place order: '' @ msg)), s)
         | Inr (saved, coll) \<Rightarrow>
             (case update_fault e of
                Some msg \<Rightarrow> (Inl (ServerError (''Failed to place order: '' @ msg)), s\<lparr>orders := coll\<rparr>)
              | None \<Rightarrow> (Inr saved, s\<lparr>orders := coll, users := (users s)(uid \<mapsto> u\<lparr>cartData := []\<rparr>)\<rparr>)))"
        using order_place_checked [OF assms \<open>users s uid = Some u\<close> ne None]
        by (simp add: doc_def Let_def)
      show ?thesis unfolding eq
        by (cases "order_save e (orders s) doc"; cases "update_fault e") (auto split: prod.splits)
    qed
  qed
qed

text \<open>
  C7. The nine required fields are firstName, lastName, email, street, city, state,
  zipcode, country and phone; a field is missing when it is undefined or the empty
  string. When one is missing, placement fails with status 400, before any write (the
  store is unchanged), and its answer flags exactly the missing fields by name; when all
  nine are supplied the address check passes: whatever the handler answers, it is not the
  address failure.
\<close>

theorem address_validation:
  "(address_incomplete (body_address body) \<longrightarrow>
      order_place e s uid body = (Inl (AddressIncomplete (missingFields (body_address body))), s) \<and>
      http_status (AddressIncomplete (missingFields (body_address body))) = 400) \<and>
   map fst (missingFields a) =
     [''firstName'', ''lastName'', ''email'', ''street'', ''city'', ''state'', ''zipcode'',
      ''country'', ''phone''] \<and>
   map snd (missingFields a) =
     map (\<lambda>f. falsy (opt_field a f))
       [firstName, lastName, email, street, city, state, zipcode, country, phone] \<and>
   address_incomplete a = (\<exists>field. (field, True) \<in> set (missingFields a)) \<and>
   (\<not> address_incomplete (body_address body) \<longrightarrow>
      (\<forall>flags. fst (order_place e s uid body) \<noteq> Inl (AddressIncomplete flags)))"
proof -
  have 1: "address_incomplete (body_address body) \<longrightarrow>
      order_place e s uid body = (Inl (AddressIncomplete (missingFields (body_address body))), s) \<and>
      http_status (AddressIncomplete (missingFields (body_address body))) = 400"
    by (simp add: order_place_def)
  have 2: "map fst (missingFields a) =
     [''firstName'', ''lastName'', ''email'', ''street'', ''city'', ''state'', ''zipcode'',
      ''country'', ''phone'']"
    by (simp add: missingFields_def)
  have 3: "map snd (missingFields a) =
     map (\<lambda>f. falsy (opt_field a f))
       [firstName, lastName, email, street, city, state, zipcode, country, phone]"
    by (simp add: missingFields_def)
  have 4: "address_incomplete a = (\<exists>field. (field, True) \<in> set (missingFields a))"
  proof (cases a)
    case None
    then show ?thesis
      by (simp add: address_incomplete_def missingFields_def opt_field_def falsy_def ex_disj_distrib)
  next
    case (Some ad)
    then show ?thesis
      by (simp add: address_incomplete_def missingFields_def opt_field_def ex_disj_distrib)
  qed
  have 5: "\<not> address_incomplete (body_address body) \<longrightarrow>
      (\<forall>flags. fst (order_place e s uid body) \<noteq> Inl (AddressIncomplete flags))"
    using order_place_not_address [of body e s uid] by blast
  from 1 2 3 4 5 show ?thesis by blast
qed

theorem address_validation_witness:
  "address_incomplete (body_address demo_body_partial) \<and>
   order_place demo_env demo_db user_1 demo_body_partial =
     (Inl (AddressIncomplete
        [(''firstName'', False), (''lastName'', False), (''email'', False), (''street'', False),
         (''city'', False), (''state'', False), (''zipcode'', True), (''country'', False),
         (''phone'', True)]), demo_db) \<and>
   \<not> address_incomplete (body_address demo_body) \<and>
   fst (order_place demo_env demo_db user_1 demo_body) \<noteq>
     Inl (AddressIncomplete (missingFields (body_address demo_body)))"
proof -
  have h1: "address_incomplete (body_address demo_body_partial)"
    by (simp add: address_incomplete_def demo_body_partial_def demo_body_def demo_address_def falsy_def)
  have h2: "\<not> address_incomplete (body_address demo_body)"
    by (simp add: address_incomplete_def demo_body_def demo_address_def falsy_def)
  have m: "missingFields (body_address demo_body_partial) =
        [(''firstName'', False), (''lastName'', False), (''email'', False), (''street'', False),
         (''city'', False), (''state'', False), (''zipcode'', True), (''country'', False),
         (''phone'', True)]"
    by (simp add: missingFields_def opt_field_def demo_body_partial_def demo_body_def
        demo_address_def falsy_def)
  from address_validation [of demo_body_partial demo_env demo_db "user_1"] h1 m
  have a: "order_place demo_env demo_db user_1 demo_body_partial =
     (Inl (AddressIncomplete
        [(''firstName'', False), (''lastName'', False), (''email'', False), (''street'', False),
         (''city'', False), (''state'', False), (''zipcode'', True), (''country'', False),
         (''phone'', True)]), demo_db)"
    by simp
  from address_validation [of demo_body demo_env demo_db "user_1"] h2
  have b: "fst (order_place demo_env demo_db user_1 demo_body) \<noteq>
     Inl (AddressIncomplete (missingFields (body_address demo_body)))"
    by blast
  from h1 a h2 b show ?thesis by blast
qed

lemma demo_address_complete: "\<not> address_incomplete (body_address demo_body)"
  by (simp add: address_incomplete_def demo_body_def demo_address_def falsy_def)

lemma item_ids_plain: "\<not> is_array_index item_a" "\<not> is_array_index item_b"
  by (simp_all add: is_array_index_def)

lemma demo_entries:
  "users demo_db user_1 = Some \<lparr>cartData = [(item_a, Num 2), (item_b, Num 1)]\<rparr>"
  "positive_entries [(item_a, Num 2), (item_b, Num 1)] = [(item_a, 2), (item_b, 1)]"
  by (simp_all add: demo_db_def positive_entries_def object_entries_def item_ids_plain
      map_filter_simps)

lemma demo_cast: "cast_fault demo_env item_a = None" "cast_fault demo_env item_b = None"
  by (simp_all add: demo_env_def hex24_def is_hex_def)

text \<open>
  C2, as the code has it. When the cart of an existing user holds an entry of positive
  quantity whose item offends (its id resolves to no food item, or to one that is not
  available), placement fails and returns the store as it was: no order is persisted and
  the cart is unchanged. There is a first such entry in the order in which the entries
  are listed; once the address check has passed, the failure is that of this entry; and
  when the store can look its id up, the failure names this entry: the item id when it
  resolves to no food item, the item's name when it is not available, with status 400.
\<close>

theorem invalid_line_aborts_placement:
  assumes "users s uid = Some u" and "(k, Num n) \<in> set (cartData u)" and "0 < n"
    and "offending e (foods s) k"
  shows "snd (order_place e s uid body) = s \<and>
         (\<exists>err. fst (order_place e s uid body) = Inl err) \<and>
         (\<exists>i q. find (\<lambda>entry. offending e (foods s) (fst entry)) (positive_entries (cartData u)) =
                  Some (i, q) \<and>
            (\<not> address_incomplete (body_address body) \<longrightarrow>
               order_place e s uid body = (Inl (entry_failure e (foods s) i), s)) \<and>
            (cast_fault e i = None \<longrightarrow>
               (foods s i = None \<longrightarrow>
                  entry_failure e (foods s) i = FoodNotFound i \<and>
                  message (entry_failure e (foods s) i) = ''Food item not found: '' @ i \<and>
                  http_status (entry_failure e (foods s) i) = 400) \<and>
               (\<forall>f. foods s i = Some f \<longrightarrow>
                  \<not> isAvailable f \<and> entry_failure e (foods s) i = FoodUnavailable (name f) \<and>
                  message (entry_failure e (foods s) i) =
                    ''Food item is no longer available: '' @ name f \<and>
                  http_status (entry_failure e (foods s) i) = 400)))"
proof -
  have mem: "(k, n) \<in> set (positive_entries (cartData u))"
    using assms(2,3) by (simp add: positive_entries_mem)
  then have ne: "positive_entries (cartData u) \<noteq> []" by auto
  from find_offending [OF mem assms(4)] obtain i q where
    f: "find (\<lambda>entry. offending e (foods s) (fst entry)) (positive_entries (cartData u)) = Some (i, q)"
    by blast
  then have off: "offending e (foods s) i"
    by (auto simp: find_Some_iff) (metis fst_conv)
  have ff: "first_failure e (foods s) (positive_entries (cartData u)) = Some (entry_failure e (foods s) i)"
    using f by (simp add: first_failure_def)
  have r: "\<not> address_incomplete (body_address body) \<longrightarrow>
             order_place e s uid body = (Inl (entry_failure e (foods s) i), s)"
    using order_place_failure [OF _ assms(1) ne ff] by simp
  have st: "snd (order_place e s uid body) = s"
    using assms(1) ne ff by (simp add: order_place_cases)
  have fl: "\<exists>err. fst (order_place e s uid body) = Inl err"
    using assms(1) ne ff by (simp add: order_place_cases)
  have nm: "cast_fault e i = None \<longrightarrow>
               (foods s i = None \<longrightarrow>
                  entry_failure e (foods s) i = FoodNotFound i \<and>
                  message (entry_failure e (foods s) i) = ''Food item not found: '' @ i \<and>
                  http_status (entry_failure e (foods s) i) = 400) \<and>
               (\<forall>f. foods s i = Some f \<longrightarrow>
                  \<not> isAvailable f \<and> entry_failure e (foods s) i = FoodUnavailable (name f) \<and>
                  message (entry_failure e (foods s) i) =
                    ''Food item is no longer available: '' @ name f \<and>
                  http_status (entry_failure e (foods s) i) = 400)"
    using off by (auto simp: entry_failure_def offending_def)
  from st fl f r nm show ?thesis
    by (intro exI [of _ i] exI [of _ q] conjI) assumption+
qed

theorem invalid_line_aborts_placement_witness:
  "users demo_db_missing user_1 = Some \<lparr>cartData = [(item_a, Num 2), (item_b, Num 1)]\<rparr> \<and>
   (item_a, Num 2) \<in> set [(item_a, Num 2), (item_b, Num 1)] \<and> (0 :: int) < 2 \<and>
   offending demo_env (foods demo_db_missing) item_a \<and>
   \<not> address_incomplete (body_address demo_body) \<and>
   cast_fault demo_env item_a = None \<and> foods demo_db_missing item_a = None \<and>
   order_place demo_env demo_db_missing user_1 demo_body =
     (Inl (FoodNotFound item_a), demo_db_missing) \<and>
   message (FoodNotFound item_a) = ''Food item not found: 64f000000000000000000b01'' \<and>
   http_status (FoodNotFound item_a) = 400"
proof -
  let ?find = "find (\<lambda>entry. offending demo_env (foods demo_db_missing) (fst entry))
             (positive_entries (cartData \<lparr>cartData = [(item_a, Num 2), (item_b, Num 1)]\<rparr>))"
  have h1: "users demo_db_missing user_1 = Some \<lparr>cartData = [(item_a, Num 2), (item_b, Num 1)]\<rparr>"
    by (simp add: demo_db_missing_def demo_db_def)
  have h2: "(item_a, Num 2) \<in> set (cartData \<lparr>cartData = [(item_a, Num 2), (item_b, Num 1)]\<rparr>)"
    by simp
  have h3: "(0 :: int) < 2" by simp
  have nf: "foods demo_db_missing item_a = None"
    by (simp add: demo_db_missing_def)
  have h4: "offending demo_env (foods demo_db_missing) item_a"
    by (simp add: offending_def nf)
  have fd: "?find = Some (item_a, 2)"
    using h4 by (simp add: demo_entries(2))
  have ef: "entry_failure demo_env (foods demo_db_missing) item_a = FoodNotFound item_a"
    by (simp add: entry_failure_def nf demo_cast)
  from invalid_line_aborts_placement [OF h1 h2 h3 h4, of demo_body] obtain i q where
    all: "?find = Some (i, q) \<and>
       (\<not> address_incomplete (body_address demo_body) \<longrightarrow>
          order_place demo_env demo_db_missing user_1 demo_body =
            (Inl (entry_failure demo_env (foods demo_db_missing) i), demo_db_missing)) \<and>
       (cast_fault demo_env i = None \<longrightarrow>
          (foods demo_db_missing i = None \<longrightarrow>
             entry_failure demo_env (foods demo_db_missing) i = FoodNotFound i \<and>
             message (entry_failure demo_env (foods demo_db_missing) i) = ''Food item not found: '' @ i \<and>
             http_status (entry_failure demo_env (foods demo_db_missing) i) = 400) \<and>
          (\<forall>f. foods demo_db_missing i = Some f \<longrightarrow>
             \<not> isAvailable f \<and>
             entry_failure demo_env (foods demo_db_missing) i = FoodUnavailable (name f) \<and>
             message (entry_failure demo_env (foods demo_db_missing) i) =
               ''Food item is no longer available: '' @ name f \<and>
             http_status (entry_failure demo_env (foods demo_db_missing) i) = 400))"
    by (elim conjE exE) (rule that, intro conjI, assumption+)
  from all [THEN conjunct1] fd have i: "i = item_a" by simp
  note r = all [THEN conjunct2, THEN conjunct1, THEN mp, OF demo_address_complete, unfolded i ef]
  note m = all [THEN conjunct2, THEN conjunct2, THEN mp, unfolded i, OF demo_cast(1),
      THEN conjunct1, THEN mp, OF nf, unfolded ef]
  from h1 h4 demo_address_complete demo_cast(1) nf r m show ?thesis
    by simp
qed

text \<open>
  The claim as stated fails in four ways. An unavailable item precedes an unresolvable
  one: the cart holds the second item, which resolves to no food item, and placement
  fails naming the unavailable Pizza, not that id. The unresolvable item has no positive
  quantity: its entry is filtered out and the order is placed with the other line. The
  address is incomplete: the failure is that of the address. The key of the entry is no
  id of the store: the lookup raises, and the answer is the server error with status 500,
  not the failure that names the item.
\<close>

theorem missing_item_not_named_counterexample:
  "foods demo_db_mixed item_b = None \<and>
   users demo_db_mixed user_1 = Some \<lparr>cartData = [(item_a, Num 2), (item_b, Num 1)]\<rparr> \<and>
   \<not> address_incomplete (body_address demo_body) \<and>
   fst (order_place demo_env demo_db_mixed user_1 demo_body) = Inl (FoodUnavailable ''Pizza'') \<and>
   fst (order_place demo_env demo_db_mixed user_1 demo_body) \<noteq> Inl (FoodNotFound item_b) \<and>
   foods demo_db_zero item_a = None \<and>
   users demo_db_zero user_1 = Some \<lparr>cartData = [(item_a, Num 0), (item_b, Num 1)]\<rparr> \<and>
   map_sum id (map foodId \<circ> items) (fst (order_place demo_env demo_db_zero user_1 demo_body)) =
     Inr [item_b] \<and>
   address_incomplete (body_address demo_body_partial) \<and>
   users demo_db_missing user_1 = Some \<lparr>cartData = [(item_a, Num 2), (item_b, Num 1)]\<rparr> \<and>
   foods demo_db_missing item_a = None \<and>
   map_sum message id (fst (order_place demo_env demo_db_missing user_1 demo_body_partial)) =
     Inl ''Complete delivery address is required'' \<and>
   users demo_db_ghost user_1 = Some \<lparr>cartData = [(''ghost'', Num 1)]\<rparr> \<and>
   foods demo_db_ghost ''ghost'' = None \<and>
   map_sum http_status id (fst (order_place demo_env demo_db_ghost user_1 demo_body)) = Inl 500 \<and>
   fst (order_place demo_env demo_db_ghost user_1 demo_body) \<noteq> Inl (FoodNotFound ''ghost'') \<and>
   snd (order_place demo_env demo_db_ghost user_1 demo_body) = demo_db_ghost"
proof -
  have u: "users demo_db_mixed user_1 = Some \<lparr>cartData = [(item_a, Num 2), (item_b, Num 1)]\<rparr>"
    by (simp add: demo_db_mixed_def demo_db_def)
  have ff: "first_failure demo_env (foods demo_db_mixed)
              (positive_entries (cartData \<lparr>cartData = [(item_a, Num 2), (item_b, Num 1)]\<rparr>)) =
      Some (FoodUnavailable ''Pizza'')"
    by (simp add: demo_db_mixed_def demo_entries(2) food_a_def first_failure_def offending_def
        entry_failure_def demo_cast)
  have a: "order_place demo_env demo_db_mixed user_1 demo_body =
      (Inl (FoodUnavailable ''Pizza''), demo_db_mixed)"
    using order_place_failure [OF demo_address_complete u _ ff] by (simp add: demo_entries(2))
  have a0: "foods demo_db_mixed item_b = None"
    by (simp add: demo_db_mixed_def)
  have zu: "users demo_db_zero user_1 = Some \<lparr>cartData = [(item_a, Num 0), (item_b, Num 1)]\<rparr>"
    by (simp add: demo_db_zero_def)
  have z0: "foods demo_db_zero item_a = None"
    by (simp add: demo_db_zero_def demo_db_missing_def)
  have zp: "positive_entries [(item_a, Num 0), (item_b, Num 1)] = [(item_b, 1)]"
    by (simp add: positive_entries_def object_entries_def item_ids_plain map_filter_simps)
  have zf: "first_failure demo_env (foods demo_db_zero) [(item_b, 1)] = None"
    by (simp add: first_failure_def offending_def demo_cast demo_db_zero_def demo_db_missing_def
        food_b_def)
  have zo: "orders demo_db_zero = []" "insert_fault demo_env = None" "update_fault demo_env = None"
    by (simp_all add: demo_db_zero_def demo_db_missing_def demo_db_def demo_env_def)
  have b: "map_sum id (map foodId \<circ> items) (fst (order_place demo_env demo_db_zero user_1 demo_body)) =
     Inr [item_b]"
    using order_place_checked [OF demo_address_complete zu, of demo_env] zf zo
    by (simp add: zp order_save_cases Let_def pre_save_def new_order_def line_item_def
        demo_db_zero_def demo_db_missing_def)
  have c0: "address_incomplete (body_address demo_body_partial)"
    by (simp add: address_incomplete_def demo_body_partial_def demo_body_def demo_address_def falsy_def)
  have cu: "users demo_db_missing user_1 = Some \<lparr>cartData = [(item_a, Num 2), (item_b, Num 1)]\<rparr>"
    by (simp add: demo_db_missing_def demo_db_def)
  have cf: "foods demo_db_missing item_a = None"
    by (simp add: demo_db_missing_def)
  have c: "map_sum message id (fst (order_place demo_env demo_db_missing user_1 demo_body_partial)) =
     Inl ''Complete delivery address is required''"
    using c0 by (simp add: order_place_cases)
  have du: "users demo_db_ghost user_1 = Some \<lparr>cartData = [(''ghost'', Num 1)]\<rparr>"
    by (simp add: demo_db_ghost_def)
  have d0: "foods demo_db_ghost ''ghost'' = None"
    by (simp add: demo_db_ghost_def demo_db_def)
  have dp: "positive_entries [(''ghost'', Num 1)] = [(''ghost'', 1)]"
    by (simp add: positive_entries_def object_entries_def is_array_index_def is_digit_def
        map_filter_simps)
  have df: "first_failure demo_env (foods demo_db_ghost)
              (positive_entries (cartData \<lparr>cartData = [(''ghost'', Num 1)]\<rparr>)) =
      Some (ServerError ''Failed to place order: Cast to ObjectId failed for value ghost'')"
    by (simp add: dp first_failure_def offending_def entry_failure_def demo_env_def hex24_def)
  have d: "order_place demo_env demo_db_ghost user_1 demo_body =
     (Inl (ServerError ''Failed to place order: Cast to ObjectId failed for value ghost''),
      demo_db_ghost)"
    using order_place_failure [OF demo_address_complete du _ df] by (simp add: dp)
  from a0 u demo_address_complete a z0 zu b c0 cu cf c du d0 d show ?thesis
    by simp
qed

lemma demo_first_failure:
  "first_failure demo_env (foods demo_db) [(item_a, 2), (item_b, 1)] = None"
  by (simp add: first_failure_def offending_def demo_cast demo_db_def food_a_def food_b_def)

lemma demo_placed:
  assumes "body_address body = Some demo_address"
  shows "\<exists>ord s'. order_place demo_env demo_db user_1 body = (Inr ord, s')"
proof -
  have a: "\<not> address_incomplete (body_address body)"
    using assms by (simp add: address_incomplete_def demo_address_def falsy_def)
  have o: "orders demo_db = []" "insert_fault demo_env = None" "update_fault demo_env = None"
    by (simp_all add: demo_db_def demo_env_def)
  show ?thesis
    using order_place_checked [OF a demo_entries(1), of demo_env] demo_first_failure o
    by (simp add: demo_entries(2) order_save_cases Let_def)
qed

text \<open>
  C5, as the code has it. The order a successful placement persists has status
  'Food Processing' and payment status 'Pending'; the handler reads only the address and
  the payment id from the request, so a payment status supplied by the caller changes
  nothing. The payment id is stored as supplied, or as null when it is absent or empty.
\<close>

theorem placed_order_status:
  assumes "order_place e s uid body = (Inr ord, s')"
  shows "status ord = Food_Processing \<and> paymentStatus ord = Pending \<and>
         last (orders s') = ord \<and>
         paymentId ord = (if falsy (body_paymentId body) then None else body_paymentId body) \<and>
         order_place e s uid (body\<lparr>body_paymentStatus := supplied\<rparr>) = (Inr ord, s')"
proof -
  from order_place_success [OF assms] obtain u where
    ord: "ord = (new_order uid (map (line_item (foods s)) (positive_entries (cartData u)))
                   (sum_lines 0 (map (line_item (foods s)) (positive_entries (cartData u)))) 2
                   (js_add (sum_lines 0 (map (line_item (foods s)) (positive_entries (cartData u)))) 2)
                   (the (body_address body)) (body_paymentId body))
                 \<lparr>orderNumber := generate_order_number (now e) (length (orders s)),
                  createdAt := now e\<rparr>"
    and s': "s' = s\<lparr>orders := orders s @ [ord], users := (users s)(uid \<mapsto> u\<lparr>cartData := []\<rparr>)\<rparr>"
    by blast
  have "order_place e s uid (body\<lparr>body_paymentStatus := supplied\<rparr>) = order_place e s uid body"
    by (simp add: order_place_def Let_def split: option.splits sum.splits prod.splits)
  with assms ord s' show ?thesis by (simp add: new_order_def)
qed

theorem placed_order_status_witness:
  "\<exists>ord s'. order_place demo_env demo_db user_1 demo_body = (Inr ord, s') \<and>
      status ord = Food_Processing \<and> paymentStatus ord = Pending \<and> last (orders s') = ord \<and>
      paymentId ord = None \<and>
      order_place demo_env demo_db user_1 (demo_body\<lparr>body_paymentStatus := Some Failed\<rparr>) = (Inr ord, s')"
proof -
  from demo_placed [of demo_body] obtain ord s' where
    p: "order_place demo_env demo_db user_1 demo_body = (Inr ord, s')"
    by (auto simp: demo_body_def)
  from placed_order_status [OF p, of "Some Failed"] p show ?thesis
    by (simp add: demo_body_def falsy_def)
qed

text \<open>
  The claim as stated fails for a caller who supplies a payment status: the body carries
  'Paid', and the order is persisted with 'Pending'.
\<close>

theorem supplied_payment_status_counterexample:
  "body_paymentStatus demo_body_paid = Some Paid \<and>
   map_sum id paymentStatus (fst (order_place demo_env demo_db user_1 demo_body_paid)) = Inr Pending \<and>
   map paymentStatus (orders (snd (order_place demo_env demo_db user_1 demo_body_paid))) = [Pending]"
proof -
  from demo_placed [of demo_body_paid] obtain ord s' where
    p: "order_place demo_env demo_db user_1 demo_body_paid = (Inr ord, s')"
    by (auto simp: demo_body_paid_def demo_body_def)
  from order_place_success [OF p] have "paymentStatus ord = Pending" "orders s' = orders demo_db @ [ord]"
    by (auto simp: new_order_def)
  with p show ?thesis by (simp add: demo_body_paid_def demo_db_def)
qed

lemma first_failure_None:
  "(first_failure e fd xs = None) = (\<forall>entry\<in>set xs. \<not> offending e fd (fst entry))"
  by (auto simp: first_failure_def find_None_iff)


text \<open>
  C1. For a user with a complete address and a cart whose positive entries are not empty
  and all resolve to available items: a successful placement has appended exactly one
  order, whose number no stored order carries, and has emptied that user's cart, leaving
  catalog and other users alone; placement does succeed when both writes go through; and
  when the insert fails (the store raises, or the unique index refuses the number) the
  answer is a 500 and the store, hence the cart, is exactly as before. The last part
  describes the one remaining path: the insert succeeds and the cart update raises, so
  the answer is a 500 with the order stored and the cart not cleared.
\<close>

theorem placement_couples_insert_and_clear:
  assumes "\<not> address_incomplete (body_address body)" and "users s uid = Some u"
    and "positive_entries (cartData u) \<noteq> []"
    and "\<forall>entry\<in>set (positive_entries (cartData u)). \<not> offending e (foods s) (fst entry)"
  shows "(\<forall>ord s'. order_place e s uid body = (Inr ord, s') \<longrightarrow>
            orders s' = orders s @ [ord] \<and>
            orderNumber ord \<notin> orderNumber ` set (orders s) \<and>
            map_option cartData (users s' uid) = Some [] \<and>
            foods s' = foods s \<and> (\<forall>v. v \<noteq> uid \<longrightarrow> users s' v = users s v)) \<and>
         (insert_fault e = None \<and> update_fault e = None \<and>
          generate_order_number (now e) (length (orders s)) \<notin> orderNumber ` set (orders s) \<longrightarrow>
            (\<exists>ord s'. order_place e s uid body = (Inr ord, s'))) \<and>
         (insert_fault e \<noteq> None \<or>
          generate_order_number (now e) (length (orders s)) \<in> orderNumber ` set (orders s) \<longrightarrow>
            (\<exists>msg. order_place e s uid body = (Inl (ServerError msg), s)) \<and>
            users (snd (order_place e s uid body)) uid = Some u) \<and>
         (insert_fault e = None \<and> update_fault e \<noteq> None \<and>
          generate_order_number (now e) (length (orders s)) \<notin> orderNumber ` set (orders s) \<longrightarrow>
            (\<exists>msg ord. order_place e s uid body =
                (Inl (ServerError msg), s\<lparr>orders := orders s @ [ord]\<rparr>)))"
proof -
  have ff: "first_failure e (foods s) (positive_entries (cartData u)) = None"
    using assms(4) by (simp add: first_failure_None)
  note eq = order_place_checked [OF assms(1,2,3) ff]
  have 1: "\<forall>ord s'. order_place e s uid body = (Inr ord, s') \<longrightarrow>
            orders s' = orders s @ [ord] \<and>
            orderNumber ord \<notin> orderNumber ` set (orders s) \<and>
            map_option cartData (users s' uid) = Some [] \<and>
            foods s' = foods s \<and> (\<forall>v. v \<noteq> uid \<longrightarrow> users s' v = users s v)"
  proof (intro allI impI)
    fix ord s'
    assume p: "order_place e s uid body = (Inr ord, s')"
    from order_place_success [OF p] assms(2) have
      "orderNumber ord \<notin> orderNumber ` set (orders s)"
      "s' = s\<lparr>orders := orders s @ [ord], users := (users s)(uid \<mapsto> u\<lparr>cartData := []\<rparr>)\<rparr>"
      by auto
    then show "orders s' = orders s @ [ord] \<and>
            orderNumber ord \<notin> orderNumber ` set (orders s) \<and>
            map_option cartData (users s' uid) = Some [] \<and>
            foods s' = foods s \<and> (\<forall>v. v \<noteq> uid \<longrightarrow> users s' v = users s v)"
      by simp
  qed
  have 2: "insert_fault e = None \<and> update_fault e = None \<and>
          generate_order_number (now e) (length (orders s)) \<notin> orderNumber ` set (orders s) \<longrightarrow>
            (\<exists>ord s'. order_place e s uid body = (Inr ord, s'))"
    by (simp add: eq order_save_cases Let_def pre_save_def new_order_def)
  have 3: "insert_fault e \<noteq> None \<or>
          generate_order_number (now e) (length (orders s)) \<in> orderNumber ` set (orders s) \<longrightarrow>
            (\<exists>msg. order_place e s uid body = (Inl (ServerError msg), s)) \<and>
            users (snd (order_place e s uid body)) uid = Some u"
    using assms(2)
    by (auto simp: eq order_save_cases Let_def pre_save_def new_order_def split: option.splits)
  have 4: "insert_fault e = None \<and> update_fault e \<noteq> None \<and>
          generate_order_number (now e) (length (orders s)) \<notin> orderNumber ` set (orders s) \<longrightarrow>
            (\<exists>msg ord. order_place e s uid body =
                (Inl (ServerError msg), s\<lparr>orders := orders s @ [ord]\<rparr>))"
    by (auto simp: eq order_save_cases Let_def pre_save_def new_order_def split: option.splits)
  from 1 2 3 4 show ?thesis by (intro conjI)
qed

theorem placement_couples_insert_and_clear_witness:
  "\<not> address_incomplete (body_address demo_body) \<and>
   users demo_db user_1 = Some \<lparr>cartData = [(item_a, Num 2), (item_b, Num 1)]\<rparr> \<and>
   positive_entries [(item_a, Num 2), (item_b, Num 1)] \<noteq> [] \<and>
   list_all (\<lambda>entry. \<not> offending demo_env (foods demo_db) (fst entry))
     (positive_entries [(item_a, Num 2), (item_b, Num 1)]) \<and>
   list_all (\<lambda>entry. \<not> offending (demo_env\<lparr>insert_fault := Some ''write failed''\<rparr>)
                        (foods demo_db) (fst entry))
     (positive_entries [(item_a, Num 2), (item_b, Num 1)]) \<and>
   (\<exists>ord s'. order_place demo_env demo_db user_1 demo_body = (Inr ord, s') \<and>
        orders s' = [ord] \<and> map_option cartData (users s' user_1) = Some []) \<and>
   (\<exists>msg. order_place (demo_env\<lparr>insert_fault := Some ''write failed''\<rparr>) demo_db user_1 demo_body =
        (Inl (ServerError msg), demo_db)) \<and>
   users (snd (order_place (demo_env\<lparr>insert_fault := Some ''write failed''\<rparr>) demo_db user_1 demo_body)) user_1 =
     Some \<lparr>cartData = [(item_a, Num 2), (item_b, Num 1)]\<rparr>"
proof -
  let ?e = "demo_env\<lparr>insert_fault := Some ''write failed''\<rparr>"
  have h3: "positive_entries (cartData \<lparr>cartData = [(item_a, Num 2), (item_b, Num 1)]\<rparr>) \<noteq> []"
    by (simp add: demo_entries(2))
  have h4: "\<forall>entry\<in>set (positive_entries (cartData \<lparr>cartData = [(item_a, Num 2), (item_b, Num 1)]\<rparr>)).
      \<not> offending demo_env (foods demo_db) (fst entry)"
    by (simp add: demo_entries(2) offending_def demo_cast demo_db_def food_a_def food_b_def)
  have h4': "\<forall>entry\<in>set (positive_entries (cartData \<lparr>cartData = [(item_a, Num 2), (item_b, Num 1)]\<rparr>)).
      \<not> offending ?e (foods demo_db) (fst entry)"
    using h4 by (simp add: offending_def)
  note t = placement_couples_insert_and_clear [OF demo_address_complete demo_entries(1) h3 h4]
  note t' = placement_couples_insert_and_clear [OF demo_address_complete demo_entries(1) h3 h4']
  have fresh: "insert_fault demo_env = None \<and> update_fault demo_env = None \<and>
    generate_order_number (now demo_env) (length (orders demo_db)) \<notin> orderNumber ` set (orders demo_db)"
    by (simp add: demo_env_def demo_db_def)
  from t [THEN conjunct2, THEN conjunct1, THEN mp, OF fresh] obtain ord s' where
    p: "order_place demo_env demo_db user_1 demo_body = (Inr ord, s')"
    by (elim exE)
  from t [THEN conjunct1, THEN spec, THEN spec, THEN mp, OF p]
  have q: "orders s' = orders demo_db @ [ord]"
    "map_option cartData (users s' user_1) = Some []"
    by simp_all
  have a: "\<exists>ord s'. order_place demo_env demo_db user_1 demo_body = (Inr ord, s') \<and>
        orders s' = [ord] \<and> map_option cartData (users s' user_1) = Some []"
    using p q by (simp add: demo_db_def)
  have "insert_fault ?e \<noteq> None \<or>
      generate_order_number (now ?e) (length (orders demo_db)) \<in> orderNumber ` set (orders demo_db)"
    by simp
  from t' [THEN conjunct2, THEN conjunct2, THEN conjunct1, THEN mp, OF this] have
    b: "\<exists>msg. order_place ?e demo_db user_1 demo_body = (Inl (ServerError msg), demo_db)"
    and c: "users (snd (order_place ?e demo_db user_1 demo_body)) user_1 =
     Some \<lparr>cartData = [(item_a, Num 2), (item_b, Num 1)]\<rparr>"
    by simp_all
  have l4: "list_all (\<lambda>entry. \<not> offending demo_env (foods demo_db) (fst entry))
     (positive_entries [(item_a, Num 2), (item_b, Num 1)])"
    using h4 by (simp add: list_all_iff)
  have l4': "list_all (\<lambda>entry. \<not> offending ?e (foods demo_db) (fst entry))
     (positive_entries [(item_a, Num 2), (item_b, Num 1)])"
    using h4' by (simp add: list_all_iff)
  have h3': "positive_entries [(item_a, Num 2), (item_b, Num 1)] \<noteq> []"
    using h3 by simp
  from demo_address_complete demo_entries(1) h3' l4 l4' a b c show ?thesis
    by (intro conjI) assumption+
qed






section \<open>Adding to the cart and the catalog\<close>

text \<open>
  AddItem does not read the catalog: its answer and the cart it stores are the same
  whatever the catalog holds. For an existing user and any item id it succeeds (the store
  answering) and stores the cart that the update leaves; its only 404 is the missing user,
  and it never answers with a failure about the item.
\<close>

lemma cart_add_never_reads_catalog:
  "cart_add ok (s\<lparr>foods := fd\<rparr>) uid itemId qopt =
     (fst (cart_add ok s uid itemId qopt), (snd (cart_add ok s uid itemId qopt))\<lparr>foods := fd\<rparr>) \<and>
   (users s uid = Some u \<longrightarrow>
      (\<exists>r. cart_add True s uid itemId qopt =
        (Inr (itemId, r),
         s\<lparr>users := (users s)(uid \<mapsto>
              u\<lparr>cartData := add_to_cart (cartData u) itemId (case qopt of None \<Rightarrow> 1 | Some q \<Rightarrow> q)\<rparr>)\<rparr>))) \<and>
   (fst (cart_add ok s uid itemId qopt) = Inl UserNotFound) = (ok \<and> users s uid = None) \<and>
   fst (cart_add ok s uid itemId qopt) \<noteq> Inl (FoodNotFound i) \<and>
   fst (cart_add ok s uid itemId qopt) \<noteq> Inl (FoodUnavailable i)"
  by (simp add: cart_add_def Let_def split: option.splits)

text \<open>
  On a key that \<^verbatim>\<open>Object.prototype\<close> does not define and with a positive quantity, the entry
  is created or its quantity raised; if the item offends, a later placement fails and
  leaves the store as the addition left it.
\<close>

lemma cart_quantity_mem:
  "0 < cart_quantity cd k \<Longrightarrow> (k, Num (cart_quantity cd k)) \<in> set cd"
  by (auto simp: cart_quantity_def split: option.splits cart_value.splits dest: map_of_SomeD)

lemma added_entry_rejected:
  assumes "users s uid = Some u" and "cart_ok (cartData u)" and "plain_key itemId" and "0 < n"
    and "offending e (foods s) itemId"
  shows "cart_quantity (cartData (the (users (snd (cart_add True s uid itemId (Some n))) uid))) itemId =
           (if cart_quantity (cartData u) itemId = 0 then n
            else js_add_int (cart_quantity (cartData u) itemId) n) \<and>
         (\<exists>err. order_place e (snd (cart_add True s uid itemId (Some n))) uid body =
                  (Inl err, snd (cart_add True s uid itemId (Some n))))"
proof -
  define cd where "cd = add_to_cart (cartData u) itemId n"
  define s1 where "s1 = snd (cart_add True s uid itemId (Some n))"
  have s1: "users s1 uid = Some (u\<lparr>cartData := cd\<rparr>)" "foods s1 = foods s"
    using assms(1) by (simp_all add: s1_def cd_def cart_add_def Let_def)
  have q: "cart_quantity cd itemId =
           (if cart_quantity (cartData u) itemId = 0 then n
            else js_add_int (cart_quantity (cartData u) itemId) n)"
    unfolding cd_def by (simp add: cart_ok_add(2) [OF assms(2,3,4)])
  have "cart_ok cd" unfolding cd_def by (rule cart_ok_add(1) [OF assms(2,3,4)])
  have pos: "0 < cart_quantity cd itemId"
    unfolding q using cart_quantity_nonneg [OF assms(2), of itemId] assms(4)
    by (simp add: js_add_int_pos)
  from cart_quantity_mem [OF pos] have "(itemId, cart_quantity cd itemId) \<in> set (positive_entries cd)"
    using pos by (simp add: positive_entries_mem)
  then have mem: "(itemId, cart_quantity cd itemId) \<in> set (positive_entries (cartData (u\<lparr>cartData := cd\<rparr>)))"
    by simp
  then have ne: "positive_entries (cartData (u\<lparr>cartData := cd\<rparr>)) \<noteq> []" by auto
  have off: "offending e (foods s1) itemId" using assms(5) by (simp add: s1(2))
  from find_offending [OF mem off] obtain i k where
    "find (\<lambda>entry. offending e (foods s1) (fst entry)) (positive_entries (cartData (u\<lparr>cartData := cd\<rparr>))) =
       Some (i, k)"
    by blast
  then have ff: "first_failure e (foods s1) (positive_entries (cartData (u\<lparr>cartData := cd\<rparr>))) =
      Some (entry_failure e (foods s1) i)"
    by (simp add: first_failure_def)
  have "\<exists>err. order_place e s1 uid body = (Inl err, s1)"
    using s1(1) ne ff by (simp add: order_place_cases)
  with q s1(1) show ?thesis unfolding s1_def by simp
qed

text \<open>
  C10. The claim fails on an item id that names a property every object inherits. The
  user's cart holds two available items, and \<open>constructor\<close> resolves to no food item.
  AddItem with that id and quantity 1 succeeds, but reads the inherited function where the
  claim expects no entry: it answers with a string, not with the quantity 1, and stores no
  quantity under that id. At the placement that follows nothing is rejected: a string is
  filtered out with the quantities that are not positive, so the order is placed with the
  two other lines and the cart is cleared; the same lines are ordered from the cart
  without that entry.
\<close>

theorem cart_add_inherited_key:
  "users demo_db user_1 = Some \<lparr>cartData = [(item_a, Num 2), (item_b, Num 1)]\<rparr> \<and>
   foods demo_db ''constructor'' = None \<and>
   fst (cart_add True demo_db user_1 ''constructor'' (Some 1)) = Inr (''constructor'', Own Text) \<and>
   map_option (\<lambda>u. cart_quantity (cartData u) ''constructor'')
     (users (snd (cart_add True demo_db user_1 ''constructor'' (Some 1))) user_1) = Some 0 \<and>
   map_sum id (map foodId \<circ> items)
     (fst (order_place demo_env (snd (cart_add True demo_db user_1 ''constructor'' (Some 1)))
             user_1 demo_body)) = Inr [item_a, item_b] \<and>
   map_option cartData
     (users (snd (order_place demo_env (snd (cart_add True demo_db user_1 ''constructor'' (Some 1)))
                    user_1 demo_body)) user_1) = Some [] \<and>
   map_sum id (map foodId \<circ> items) (fst (order_place demo_env demo_db user_1 demo_body)) =
     Inr [item_a, item_b]"
proof -
  let ?cd = "[(item_a, Num 2), (item_b, Num 1), (''constructor'', Text)]"
  let ?s1 = "demo_db\<lparr>users := [user_1 \<mapsto> \<lparr>cartData = ?cd\<rparr>]\<rparr>"
  have f0: "foods demo_db ''constructor'' = None"
    by (simp add: demo_db_def)
  have add: "cart_add True demo_db user_1 ''constructor'' (Some 1) = (Inr (''constructor'', Own Text), ?s1)"
    by (simp add: cart_add_def add_to_cart_def cart_read_def cart_assign_def prototype_names_def
        demo_db_def Let_def)
  have u1: "users ?s1 user_1 = Some \<lparr>cartData = ?cd\<rparr>"
    by simp
  have q0: "cart_quantity ?cd ''constructor'' = 0"
    by (simp add: cart_quantity_def)
  have pe: "positive_entries (cartData \<lparr>cartData = ?cd\<rparr>) = [(item_a, 2), (item_b, 1)]"
    by (simp add: positive_entries_def object_entries_def item_ids_plain is_array_index_def
        is_digit_def map_filter_simps)
  have ff: "first_failure demo_env (foods ?s1) (positive_entries (cartData \<lparr>cartData = ?cd\<rparr>)) = None"
    unfolding pe using demo_first_failure by simp
  have o: "orders ?s1 = []" "insert_fault demo_env = None" "update_fault demo_env = None"
    by (simp_all add: demo_db_def demo_env_def)
  have ne: "positive_entries (cartData \<lparr>cartData = ?cd\<rparr>) \<noteq> []"
    unfolding pe by simp
  have place: "map_sum id (map foodId \<circ> items) (fst (order_place demo_env ?s1 user_1 demo_body)) =
      Inr [item_a, item_b]"
    "map_option cartData (users (snd (order_place demo_env ?s1 user_1 demo_body)) user_1) = Some []"
    using o pe by (simp_all add: order_place_checked [OF demo_address_complete u1 ne ff]
        order_save_cases Let_def pre_save_def new_order_def line_item_def)
  have ff0: "first_failure demo_env (foods demo_db)
      (positive_entries (cartData \<lparr>cartData = [(item_a, Num 2), (item_b, Num 1)]\<rparr>)) = None"
    using demo_first_failure by (simp add: demo_entries(2))
  have ne0: "positive_entries (cartData \<lparr>cartData = [(item_a, Num 2), (item_b, Num 1)]\<rparr>) \<noteq> []"
    by (simp add: demo_entries(2))
  have o0: "orders demo_db = []"
    by (simp add: demo_db_def)
  have place0: "map_sum id (map foodId \<circ> items) (fst (order_place demo_env demo_db user_1 demo_body)) =
      Inr [item_a, item_b]"
    using o o0 demo_entries(2)
    by (simp add: order_place_checked [OF demo_address_complete demo_entries(1) ne0 ff0]
        order_save_cases Let_def pre_save_def new_order_def line_item_def)
  from demo_entries(1) f0 add q0 place place0 show ?thesis
    by simp
qed

section \<open>Order listing: properties\<close>








section \<open>Order numbers: properties\<close>


lemma digit_less_10: "d < (10 :: nat) \<Longrightarrow> d \<in> {0, 1, 2, 3, 4, 5, 6, 7, 8, 9}"
  by auto

lemma digit_val_digit_char: "d < 10 \<Longrightarrow> digit_val (digit_char d) = d"
  by (drule digit_less_10) (auto simp: digit_val_def digit_char_def)

lemma digit_char_not_dash: "d < 10 \<Longrightarrow> digit_char d \<noteq> CHR ''-''"
  by (drule digit_less_10) (auto simp: digit_char_def)

lemma parse_nat_snoc: "parse_nat (xs @ [c]) = 10 * parse_nat xs + digit_val c"
  by (simp add: parse_nat_def)

lemma parse_nat_toString: "parse_nat (toString n) = n"
proof (induction n rule: toString.induct)
  case (1 n)
  show ?case
  proof (cases "n < 10")
    case True
    then show ?thesis
      by (subst toString.simps) (simp add: parse_nat_def digit_val_digit_char)
  next
    case False
    then have "parse_nat (toString n) = 10 * parse_nat (toString (n div 10)) + digit_val (digit_char (n mod 10))"
      by (subst toString.simps) (simp add: parse_nat_snoc del: toString.simps)
    with False "1.IH" show ?thesis
      by (simp add: digit_val_digit_char del: toString.simps)
  qed
qed

lemma toString_no_dash: "CHR ''-'' \<notin> set (toString n)"
proof (induction n rule: toString.induct)
  case (1 n)
  show ?case
  proof (cases "n < 10")
    case True
    then show ?thesis
      using digit_char_not_dash [of n] by (subst toString.simps) auto
  next
    case False
    have "set (toString n) = set (toString (n div 10)) \<union> {digit_char (n mod 10)}"
      using False by (subst toString.simps) (simp del: toString.simps)
    with False "1.IH" digit_char_not_dash [of "n mod 10"] show ?thesis
      by (auto simp del: toString.simps)
  qed
qed

lemma length_toString_pos: "0 < length (toString n)"
  by (subst toString.simps) (simp del: toString.simps)

lemma length_toString: "0 < k \<Longrightarrow> (length (toString n) \<le> k) = (n < 10 ^ k)"
proof (induction n arbitrary: k rule: toString.induct)
  case (1 n)
  show ?case
  proof (cases "n < 10")
    case True
    have "n < 10 ^ k"
      using True "1.prems" by (metis less_le_trans power_one_right power_increasing one_le_numeral Suc_leI One_nat_def)
    moreover have "length (toString n) = 1"
      using True by (subst toString.simps) simp
    ultimately show ?thesis using "1.prems" by simp
  next
    case False
    have len: "length (toString n) = Suc (length (toString (n div 10)))"
      using False by (subst toString.simps) (simp del: toString.simps)
    show ?thesis
    proof (cases k)
      case 0
      with "1.prems" show ?thesis by simp
    next
      case (Suc j)
      show ?thesis
      proof (cases "j = 0")
        case True
        with Suc False len length_toString_pos [of "n div 10"] show ?thesis
          by (simp del: toString.simps)
      next
        case j: False
        then have "(length (toString (n div 10)) \<le> j) = (n div 10 < 10 ^ j)"
          using "1.IH" [OF False, of j] by simp
        moreover have "(n div 10 < 10 ^ j) = (n < 10 ^ Suc j)"
          by (simp add: div_less_iff_less_mult mult.commute)
        ultimately show ?thesis using Suc len by (simp del: toString.simps)
      qed
    qed
  qed
qed

lemma parse_nat_zeros: "parse_nat (replicate k (CHR ''0'') @ str) = parse_nat str"
proof -
  have "foldl (\<lambda>acc c. 10 * acc + digit_val c) 0 (replicate k (CHR ''0'')) = 0"
    by (induction k) (simp_all add: digit_val_def)
  then show ?thesis by (simp add: parse_nat_def)
qed

lemma parse_sequence_segment: "parse_nat (sequence_segment c) = c + 1"
  by (simp add: sequence_segment_def padStart_def parse_nat_zeros parse_nat_toString
      del: toString.simps)

lemma sequence_segment_no_dash: "CHR ''-'' \<notin> set (sequence_segment c)"
  using toString_no_dash [of "c + 1"]
  by (auto simp: sequence_segment_def padStart_def simp del: toString.simps)

lemma last_segment_generate:
  "last_segment (generate_order_number t c) = sequence_segment c"
proof -
  have "takeWhile (\<lambda>x. x \<noteq> CHR ''-'') (rev (sequence_segment c) @ CHR ''-'' # rev (''ORD-'' @ toString t)) =
      rev (sequence_segment c)"
    using sequence_segment_no_dash [of c]
    by (subst takeWhile_append2) auto
  then show ?thesis
    by (simp add: last_segment_def generate_order_number_def del: toString.simps)
qed

lemma order_seq_generate: "order_seq (generate_order_number t c) = c + 1"
  by (simp add: order_seq_def last_segment_generate parse_sequence_segment)

lemma generate_order_number_inj:
  "generate_order_number t c = generate_order_number t' c' \<Longrightarrow> c = c'"
  using order_seq_generate [of t c] order_seq_generate [of t' c'] by simp

lemma length_sequence_segment:
  "4 \<le> length (sequence_segment c)" "(length (sequence_segment c) = 4) = (c < 9999)"
proof -
  have l: "length (sequence_segment c) = max 4 (length (toString (c + 1)))"
    by (simp add: sequence_segment_def padStart_def del: toString.simps)
  show "4 \<le> length (sequence_segment c)" by (simp add: l del: toString.simps)
  have "(length (toString (c + 1)) \<le> 4) = (c + 1 < 10 ^ 4)"
    by (rule length_toString) simp
  then show "(length (sequence_segment c) = 4) = (c < 9999)"
    unfolding l by (auto simp del: toString.simps)
qed

lemma numbered_fresh:
  assumes "numbered coll"
  shows "generate_order_number t (length coll) \<notin> orderNumber ` set coll"
proof
  assume "generate_order_number t (length coll) \<in> orderNumber ` set coll"
  then obtain ord where ord: "ord \<in> set coll" "orderNumber ord = generate_order_number t (length coll)"
    by auto
  then have "order_seq (orderNumber ord) = Suc (length coll)"
    by (simp add: order_seq_generate)
  moreover have "order_seq (orderNumber ord) \<in> set (map (\<lambda>ord. order_seq (orderNumber ord)) coll)"
    using ord(1) by simp
  then have "order_seq (orderNumber ord) \<in> set [1..<Suc (length coll)]"
    using assms by (simp only: numbered_def)
  then have "order_seq (orderNumber ord) < Suc (length coll)"
    by (simp del: upt_Suc)
  ultimately show False by simp
qed

lemma numbered_append:
  "numbered coll \<Longrightarrow> orderNumber ord = generate_order_number t (length coll) \<Longrightarrow> numbered (coll @ [ord])"
  by (simp add: numbered_def order_seq_generate del: upt_Suc) (simp add: upt_Suc_append)

text \<open>
  C4, as the code has it. An order number is \<open>ORD-\<close>, the decimal timestamp, a dash and
  the sequence segment: the decimal count of stored orders plus one, padded with zeros on
  the left to at least four characters. The segment is never shorter than four and is
  exactly four while fewer than 9999 orders are stored. Numbers generated from different
  counts differ, whatever the timestamps. The hook sets the number before the insert, and
  the insert refuses a number that is already stored. So two orders placed one after the
  other, the second on a store that still holds the first, carry different numbers, also
  in the same millisecond; and on a store filled only by such placements the generated
  number is always new, so the unique index never has to refuse it.
\<close>

theorem order_number_generation:
  "generate_order_number t c = ''ORD-'' @ toString t @ ''-'' @ sequence_segment c \<and>
   sequence_segment c = replicate (4 - length (toString (c + 1))) (CHR ''0'') @ toString (c + 1) \<and>
   parse_nat (toString c) = c \<and>
   4 \<le> length (sequence_segment c) \<and>
   (length (sequence_segment c) = 4) = (c < 9999) \<and>
   (generate_order_number t c = generate_order_number t' c' \<longrightarrow> c = c') \<and>
   (orderNumber doc = [] \<longrightarrow>
      orderNumber (pre_save t coll doc) = generate_order_number t (length coll)) \<and>
   (\<forall>saved coll'. order_save e coll doc = Inr (saved, coll') \<longrightarrow>
      coll' = coll @ [saved] \<and>
      orderNumber saved = orderNumber (pre_save (now e) coll doc) \<and>
      orderNumber saved \<notin> orderNumber ` set coll) \<and>
   (orderNumber (pre_save (now e) coll doc) \<in> orderNumber ` set coll \<longrightarrow>
      (\<exists>msg. order_save e coll doc = Inl msg)) \<and>
   (\<forall>o1 s1 o2 s3.
      order_place e1 s uid1 b1 = (Inr o1, s1) \<and> orders s2 = orders s1 @ later \<and>
      order_place e2 s2 uid2 b2 = (Inr o2, s3) \<longrightarrow>
        orderNumber o1 = generate_order_number (now e1) (length (orders s)) \<and>
        orderNumber o2 = generate_order_number (now e2) (length (orders s2)) \<and>
        orderNumber o1 \<noteq> orderNumber o2) \<and>
   numbered [] \<and>
   (numbered coll \<longrightarrow> generate_order_number t (length coll) \<notin> orderNumber ` set coll) \<and>
   (\<forall>ord s'. numbered (orders s) \<and> order_place e1 s uid1 b1 = (Inr ord, s') \<longrightarrow>
      numbered (orders s'))"
proof -
  have c1: "generate_order_number t c = ''ORD-'' @ toString t @ ''-'' @ sequence_segment c"
    by (simp add: generate_order_number_def del: toString.simps)
  have c2: "sequence_segment c = replicate (4 - length (toString (c + 1))) (CHR ''0'') @ toString (c + 1)"
    by (simp add: sequence_segment_def padStart_def del: toString.simps)
  have c3: "parse_nat (toString c) = c"
    by (rule parse_nat_toString)
  have c4: "4 \<le> length (sequence_segment c)"
    by (rule length_sequence_segment(1))
  have c5: "(length (sequence_segment c) = 4) = (c < 9999)"
    by (rule length_sequence_segment(2))
  have c6: "(generate_order_number t c = generate_order_number t' c' \<longrightarrow> c = c')"
    using generate_order_number_inj by blast
  have c7: "(orderNumber doc = [] \<longrightarrow>
      orderNumber (pre_save t coll doc) = generate_order_number t (length coll))"
    by (simp add: pre_save_def)
  have c8: "(\<forall>saved coll'. order_save e coll doc = Inr (saved, coll') \<longrightarrow>
      coll' = coll @ [saved] \<and>
      orderNumber saved = orderNumber (pre_save (now e) coll doc) \<and>
      orderNumber saved \<notin> orderNumber ` set coll)"
    by (auto simp: order_save_cases Let_def split: option.splits if_splits)
  have c9: "(orderNumber (pre_save (now e) coll doc) \<in> orderNumber ` set coll \<longrightarrow>
      (\<exists>msg. order_save e coll doc = Inl msg))"
    by (auto simp: order_save_cases Let_def split: option.splits)
  have c10: "(\<forall>o1 s1 o2 s3.
      order_place e1 s uid1 b1 = (Inr o1, s1) \<and> orders s2 = orders s1 @ later \<and>
      order_place e2 s2 uid2 b2 = (Inr o2, s3) \<longrightarrow>
        orderNumber o1 = generate_order_number (now e1) (length (orders s)) \<and>
        orderNumber o2 = generate_order_number (now e2) (length (orders s2)) \<and>
        orderNumber o1 \<noteq> orderNumber o2)"
  proof (intro allI impI, elim conjE)
    fix o1 s1 o2 s3
    assume p1: "order_place e1 s uid1 b1 = (Inr o1, s1)" and m: "orders s2 = orders s1 @ later"
      and p2: "order_place e2 s2 uid2 b2 = (Inr o2, s3)"
    from order_place_success [OF p1] have
      n1: "orderNumber o1 = generate_order_number (now e1) (length (orders s))"
      and l1: "orders s1 = orders s @ [o1]"
      by (auto simp: new_order_def)
    from order_place_success [OF p2] have
      n2: "orderNumber o2 = generate_order_number (now e2) (length (orders s2))"
      by (auto simp: new_order_def)
    have "length (orders s) \<noteq> length (orders s2)"
      by (simp add: m l1)
    with generate_order_number_inj [of "now e1" "length (orders s)" "now e2" "length (orders s2)"]
    have "orderNumber o1 \<noteq> orderNumber o2"
      unfolding n1 n2 by blast
    with n1 n2 show "orderNumber o1 = generate_order_number (now e1) (length (orders s)) \<and>
        orderNumber o2 = generate_order_number (now e2) (length (orders s2)) \<and>
        orderNumber o1 \<noteq> orderNumber o2"
      by (intro conjI)
  qed
  have c11: "numbered []"
    by (simp add: numbered_def)
  have c12: "(numbered coll \<longrightarrow> generate_order_number t (length coll) \<notin> orderNumber ` set coll)"
    using numbered_fresh by blast
  have c13: "(\<forall>ord s'. numbered (orders s) \<and> order_place e1 s uid1 b1 = (Inr ord, s') \<longrightarrow>
      numbered (orders s'))"
  proof (intro allI impI, elim conjE)
    fix ord s'
    assume n: "numbered (orders s)" and p: "order_place e1 s uid1 b1 = (Inr ord, s')"
    from order_place_success [OF p] have
      "orderNumber ord = generate_order_number (now e1) (length (orders s))"
      "orders s' = orders s @ [ord]"
      by (auto simp: new_order_def)
    with numbered_append [OF n] show "numbered (orders s')"
      by simp
  qed
  show ?thesis
    by (intro conjI) (fact c1 c2 c3 c4 c5 c6 c7 c8 c9 c10 c11 c12 c13)+
qed

lemma replicate_3: "replicate 3 x = [x, x, x]"
  by (simp add: numeral_3_eq_3)

lemma demo_generated:
  "generate_order_number 1700000000000 0 = ''ORD-1700000000000-0001''"
  "generate_order_number 1700000000000 1 = ''ORD-1700000000000-0002''"
  by (simp_all add: generate_order_number_def sequence_segment_def padStart_def digit_char_def
      replicate_3)

theorem order_number_generation_witness:
  "\<exists>o1 s1 o2 s2.
     order_place demo_env demo_db_two user_1 demo_body = (Inr o1, s1) \<and>
     order_place demo_env s1 user_2 demo_body = (Inr o2, s2) \<and>
     orderNumber o1 = ''ORD-1700000000000-0001'' \<and>
     orderNumber o2 = ''ORD-1700000000000-0002'' \<and>
     orderNumber o1 \<noteq> orderNumber o2 \<and> numbered (orders s2)"
proof -
  have env: "now demo_env = 1700000000000" "insert_fault demo_env = None" "update_fault demo_env = None"
    by (simp_all add: demo_env_def)
  have db: "users demo_db_two user_1 = Some \<lparr>cartData = [(item_a, Num 2), (item_b, Num 1)]\<rparr>"
    "users demo_db_two user_2 = Some \<lparr>cartData = [(item_b, Num 3)]\<rparr>"
    "foods demo_db_two = foods demo_db" "orders demo_db_two = []"
    by (simp_all add: demo_db_two_def demo_db_def)
  have ff1: "first_failure demo_env (foods demo_db_two) (positive_entries (cartData \<lparr>cartData = [(item_a, Num 2), (item_b, Num 1)]\<rparr>)) = None"
    by (simp add: db(3) demo_entries(2) demo_first_failure)
  have ne1: "positive_entries (cartData \<lparr>cartData = [(item_a, Num 2), (item_b, Num 1)]\<rparr>) \<noteq> []"
    by (simp add: demo_entries(2))
  from order_place_checked [OF demo_address_complete db(1) ne1 ff1]
  obtain o1 s1 where p1: "order_place demo_env demo_db_two user_1 demo_body = (Inr o1, s1)"
    by (simp add: order_save_cases Let_def env db(4))
  from order_place_success [OF p1] db(1) have
    s1: "s1 = demo_db_two\<lparr>orders := orders demo_db_two @ [o1],
              users := (users demo_db_two)(user_1 \<mapsto> \<lparr>cartData = [(item_a, Num 2), (item_b, Num 1)]\<rparr>\<lparr>cartData := []\<rparr>)\<rparr>"
    and n1: "orderNumber o1 = generate_order_number (now demo_env) (length (orders demo_db_two))"
    by (auto simp: new_order_def)
  have st: "users s1 user_2 = Some \<lparr>cartData = [(item_b, Num 3)]\<rparr>" "foods s1 = foods demo_db"
    "orders s1 = [o1]"
    by (simp_all add: s1 db)
  have pe2: "positive_entries [(item_b, Num 3)] = [(item_b, 3)]"
    by (simp add: positive_entries_def object_entries_def item_ids_plain map_filter_simps)
  have ff2: "first_failure demo_env (foods s1) (positive_entries (cartData \<lparr>cartData = [(item_b, Num 3)]\<rparr>)) = None"
    by (simp add: st(2) pe2 first_failure_def offending_def demo_cast demo_db_def food_b_def)
  have ne2: "positive_entries (cartData \<lparr>cartData = [(item_b, Num 3)]\<rparr>) \<noteq> []"
    by (simp add: pe2)
  have fresh: "generate_order_number 1700000000000 (Suc 0) \<noteq> orderNumber o1"
    using n1 generate_order_number_inj [of 1700000000000 "Suc 0" 1700000000000 0]
    by (auto simp: env db(4))
  from order_place_checked [OF demo_address_complete st(1) ne2 ff2] fresh
  obtain o2 s2 where p2: "order_place demo_env s1 user_2 demo_body = (Inr o2, s2)"
    by (simp add: order_save_cases Let_def env st(3) pre_save_def new_order_def)
  note t = order_number_generation [where ?e1.0 = demo_env and s = demo_db_two and ?uid1.0 = "user_1"
      and ?b1.0 = demo_body and ?s2.0 = s1 and later = "[]" and ?e2.0 = demo_env and ?uid2.0 = "user_2"
      and ?b2.0 = demo_body]
  note seq = t [THEN conjunct2, THEN conjunct2, THEN conjunct2, THEN conjunct2, THEN conjunct2, THEN conjunct2, THEN conjunct2, THEN conjunct2, THEN conjunct2, THEN conjunct1, rule_format, of o1 s1 o2 s2]
  have dd: "orderNumber o1 = generate_order_number (now demo_env) (length (orders demo_db_two)) \<and>
       orderNumber o2 = generate_order_number (now demo_env) (length (orders s1)) \<and>
       orderNumber o1 \<noteq> orderNumber o2"
    by (rule seq) (simp add: p1 p2)
  note d = dd [THEN conjunct1] dd [THEN conjunct2, THEN conjunct1] dd [THEN conjunct2, THEN conjunct2]
  have n0: "numbered (orders demo_db_two)"
    using t [THEN conjunct2, THEN conjunct2, THEN conjunct2, THEN conjunct2, THEN conjunct2, THEN conjunct2, THEN conjunct2, THEN conjunct2, THEN conjunct2, THEN conjunct2, THEN conjunct1] by (simp only: db(4))
  have n1': "numbered (orders s1)"
    using t [THEN conjunct2, THEN conjunct2, THEN conjunct2, THEN conjunct2, THEN conjunct2, THEN conjunct2, THEN conjunct2, THEN conjunct2, THEN conjunct2, THEN conjunct2, THEN conjunct2, THEN conjunct2, rule_format, of o1 s1] n0 p1 by simp
  have nb: "numbered (orders s2)"
    using order_number_generation [where ?e1.0 = demo_env and s = s1 and ?uid1.0 = "user_2"
        and ?b1.0 = demo_body, THEN conjunct2, THEN conjunct2, THEN conjunct2, THEN conjunct2, THEN conjunct2, THEN conjunct2, THEN conjunct2, THEN conjunct2, THEN conjunct2, THEN conjunct2, THEN conjunct2, THEN conjunct2, rule_format, of o2 s2] n1' p2
    by simp
  have v: "orderNumber o1 = ''ORD-1700000000000-0001''" "orderNumber o2 = ''ORD-1700000000000-0002''"
    using d(1,2) demo_generated by (simp_all only: env db(4) st(3) list.size One_nat_def) simp_all
  from p1 p2 v d(3) nb show ?thesis
    by (intro exI [of _ o1] exI [of _ s1] exI [of _ o2] exI [of _ s2] conjI)
qed

text \<open>
  The segment is not of fixed width: the order placed when 9999 orders are stored gets the
  five-character segment \<open>10000\<close>, the first order the four-character \<open>0001\<close>.
\<close>

theorem segment_width_counterexample:
  "sequence_segment 0 = ''0001'' \<and> length (sequence_segment 0) = 4 \<and>
   sequence_segment 9999 = ''10000'' \<and> length (sequence_segment 9999) = 5 \<and>
   generate_order_number 1700000000000 9999 = ''ORD-1700000000000-10000''"
  by (simp add: generate_order_number_def sequence_segment_def padStart_def digit_char_def
      replicate_3)

end
